theory Spec2Isabelle
  imports Complex_Main
begin

section \<open>Numbers and basic types\<close>

text \<open>
  A JavaScript number is modelled as a real: the finite, non-NaN doubles with their order.
  \<open>Number.MAX_VALUE\<close> is the largest finite double, \<open>(2^53 - 1) * 2^971\<close>. A read that gives
  \<open>undefined\<close> or \<open>null\<close> in the source is \<open>None\<close> here, and a call on \<open>undefined\<close> is a
  \<open>TypeError\<close> value.
\<close>

definition MAX_VALUE :: real where
  "MAX_VALUE = (2 ^ 53 - 1) * 2 ^ 971"

datatype js_error = TypeError

datatype AxisDependency = LEFT | RIGHT

text \<open>An entry of a data set (\<open>Entry\<close>, read through \<open>getX()\<close> and \<open>getY()\<close>).\<close>

record Entry =
  getX :: real
  getY :: real

section \<open>Data sets\<close>

text \<open>
  Data sets are objects: the container holds references to them, and a data set that is
  changed is changed for every holder. A reference is an address, and the store maps each
  address to the object's current value.
\<close>

type_synonym ref = nat

record DataSet =
  getAxisDependency :: AxisDependency
  isHighlightEnabled :: bool
  mValues :: "Entry list"

type_synonym store = "ref \<Rightarrow> DataSet"

text \<open>
  The exact lower and upper bound of a collection of values, with the sentinels
  \<open>Number.MAX_VALUE\<close> and \<open>-Number.MAX_VALUE\<close> for the empty collection.
\<close>

definition lowest :: "real set \<Rightarrow> real" where
  "lowest S = (if S = {} then MAX_VALUE else Min S)"

definition highest :: "real set \<Rightarrow> real" where
  "highest S = (if S = {} then - MAX_VALUE else Max S)"

text \<open>
  Modelled from the spec: the class \<open>DataSet\<close> (the implementation of \<open>IDataSet\<close>) is not
  among the sources. Its own bounds are the minima and maxima over the entries it holds
  ("aggregate bounds always equal the min/max over all currently present entries"),
  \<open>addEntry\<close> appends an entry, \<open>removeEntry\<close> takes one out, and both say whether they
  did; \<open>null\<close> is never added or removed.
\<close>

definition DataSet_getYMin :: "DataSet \<Rightarrow> real" where
  "DataSet_getYMin d = lowest (getY ` set (mValues d))"

definition DataSet_getYMax :: "DataSet \<Rightarrow> real" where
  "DataSet_getYMax d = highest (getY ` set (mValues d))"

definition DataSet_getXMin :: "DataSet \<Rightarrow> real" where
  "DataSet_getXMin d = lowest (getX ` set (mValues d))"

definition DataSet_getXMax :: "DataSet \<Rightarrow> real" where
  "DataSet_getXMax d = highest (getX ` set (mValues d))"

definition DataSet_getEntryCount :: "DataSet \<Rightarrow> nat" where
  "DataSet_getEntryCount d = length (mValues d)"

definition DataSet_addEntry :: "Entry option \<Rightarrow> DataSet \<Rightarrow> bool \<times> DataSet" where
  "DataSet_addEntry e d =
     (case e of
        None \<Rightarrow> (False, d)
      | Some v \<Rightarrow> (True, d\<lparr>mValues := mValues d @ [v]\<rparr>))"

definition DataSet_removeEntry :: "Entry option \<Rightarrow> DataSet \<Rightarrow> bool \<times> DataSet" where
  "DataSet_removeEntry e d =
     (case e of
        None \<Rightarrow> (False, d)
      | Some v \<Rightarrow>
          if v \<in> set (mValues d) then (True, d\<lparr>mValues := remove1 v (mValues d)\<rparr>)
          else (False, d))"

text \<open>
  Modelled from the spec: \<open>DataSet.getEntriesForXValue\<close> and \<open>DataSet.getEntryForXValue\<close>
  are not among the sources. The first fetches the "entries at that exact domain x-value";
  the second, with the rounding \<open>CLOSEST\<close> that every call in the sources uses and no
  y-value (\<open>NaN\<close>), gives "the entry nearest that x-value (policy: closest, ties broken by
  scan order, first match wins)", and nothing for a data set without entries.
\<close>

definition getEntriesForXValue :: "DataSet \<Rightarrow> real \<Rightarrow> Entry list" where
  "getEntriesForXValue d xVal = filter (\<lambda>e. getX e = xVal) (mValues d)"

fun closestEntry :: "real \<Rightarrow> Entry \<Rightarrow> Entry list \<Rightarrow> Entry" where
  "closestEntry xVal best [] = best"
| "closestEntry xVal best (e # es) =
     (if \<bar>getX e - xVal\<bar> < \<bar>getX best - xVal\<bar> then closestEntry xVal e es
      else closestEntry xVal best es)"

definition getEntryForXValue :: "DataSet \<Rightarrow> real \<Rightarrow> Entry option" where
  "getEntryForXValue d xVal =
     (case mValues d of [] \<Rightarrow> None | e # es \<Rightarrow> Some (closestEntry xVal e es))"

section \<open>ChartData: the data container and its running bounds\<close>

record ChartData =
  mYMax :: real
  mYMin :: real
  mXMax :: real
  mXMin :: real
  mLeftAxisMax :: real
  mLeftAxisMin :: real
  mRightAxisMax :: real
  mRightAxisMin :: real
  mDataSets :: "ref list"

text \<open>\<open>calcMinMaxForDataSet(d)\<close>: widens the running bounds by the bounds of one data set.\<close>

definition calcMinMaxForDataSet :: "DataSet \<Rightarrow> ChartData \<Rightarrow> ChartData" where
  "calcMinMaxForDataSet d c =
     (let c = (if mYMax c < DataSet_getYMax d then c\<lparr>mYMax := DataSet_getYMax d\<rparr> else c);
          c = (if mYMin c > DataSet_getYMin d then c\<lparr>mYMin := DataSet_getYMin d\<rparr> else c);
          c = (if mXMax c < DataSet_getXMax d then c\<lparr>mXMax := DataSet_getXMax d\<rparr> else c);
          c = (if mXMin c > DataSet_getXMin d then c\<lparr>mXMin := DataSet_getXMin d\<rparr> else c)
      in if getAxisDependency d = LEFT then
           (let c = (if mLeftAxisMax c < DataSet_getYMax d
                     then c\<lparr>mLeftAxisMax := DataSet_getYMax d\<rparr> else c)
            in if mLeftAxisMin c > DataSet_getYMin d
               then c\<lparr>mLeftAxisMin := DataSet_getYMin d\<rparr> else c)
         else
           (let c = (if mRightAxisMax c < DataSet_getYMax d
                     then c\<lparr>mRightAxisMax := DataSet_getYMax d\<rparr> else c)
            in if mRightAxisMin c > DataSet_getYMin d
               then c\<lparr>mRightAxisMin := DataSet_getYMin d\<rparr> else c))"

text \<open>\<open>calcMinMaxForEntry(e, axis)\<close>: widens the running bounds by one entry.\<close>

definition calcMinMaxForEntry :: "Entry \<Rightarrow> AxisDependency \<Rightarrow> ChartData \<Rightarrow> ChartData" where
  "calcMinMaxForEntry e ax c =
     (let c = (if mYMax c < getY e then c\<lparr>mYMax := getY e\<rparr> else c);
          c = (if mYMin c > getY e then c\<lparr>mYMin := getY e\<rparr> else c);
          c = (if mXMax c < getX e then c\<lparr>mXMax := getX e\<rparr> else c);
          c = (if mXMin c > getX e then c\<lparr>mXMin := getX e\<rparr> else c)
      in if ax = LEFT then
           (let c = (if mLeftAxisMax c < getY e then c\<lparr>mLeftAxisMax := getY e\<rparr> else c)
            in if mLeftAxisMin c > getY e then c\<lparr>mLeftAxisMin := getY e\<rparr> else c)
         else
           (let c = (if mRightAxisMax c < getY e then c\<lparr>mRightAxisMax := getY e\<rparr> else c)
            in if mRightAxisMin c > getY e then c\<lparr>mRightAxisMin := getY e\<rparr> else c))"

text \<open>\<open>getFirstLeft(sets)\<close> and \<open>getFirstRight(sets)\<close>: the first data set of that axis, if any.\<close>

definition getFirstLeft :: "store \<Rightarrow> ref list \<Rightarrow> ref option" where
  "getFirstLeft st sets = find (\<lambda>r. getAxisDependency (st r) = LEFT) sets"

definition getFirstRight :: "store \<Rightarrow> ref list \<Rightarrow> ref option" where
  "getFirstRight st sets = find (\<lambda>r. getAxisDependency (st r) = RIGHT) sets"

text \<open>The bodies of the two per-axis loops of \<open>calcMinMax\<close>.\<close>

definition leftAxisStep :: "DataSet \<Rightarrow> ChartData \<Rightarrow> ChartData" where
  "leftAxisStep d c =
     (if getAxisDependency d = LEFT then
        (let c = (if DataSet_getYMin d < mLeftAxisMin c
                  then c\<lparr>mLeftAxisMin := DataSet_getYMin d\<rparr> else c)
         in if DataSet_getYMax d > mLeftAxisMax c
            then c\<lparr>mLeftAxisMax := DataSet_getYMax d\<rparr> else c)
      else c)"

definition rightAxisStep :: "DataSet \<Rightarrow> ChartData \<Rightarrow> ChartData" where
  "rightAxisStep d c =
     (if getAxisDependency d = RIGHT then
        (let c = (if DataSet_getYMin d < mRightAxisMin c
                  then c\<lparr>mRightAxisMin := DataSet_getYMin d\<rparr> else c)
         in if DataSet_getYMax d > mRightAxisMax c
            then c\<lparr>mRightAxisMax := DataSet_getYMax d\<rparr> else c)
      else c)"

text \<open>
  \<open>calcMinMax()\<close>: recomputes all bounds from the data sets. The array of data sets is
  never \<open>null\<close> here (the constructor stores the array it is given), so the guard
  \<open>mDataSets == null\<close> does not fire.
\<close>

definition calcMinMax :: "store \<Rightarrow> ChartData \<Rightarrow> ChartData" where
  "calcMinMax st c =
     (let c = c\<lparr>mYMax := - MAX_VALUE, mYMin := MAX_VALUE,
                mXMax := - MAX_VALUE, mXMin := MAX_VALUE\<rparr>;
          c = fold (\<lambda>r. calcMinMaxForDataSet (st r)) (mDataSets c) c;
          c = c\<lparr>mLeftAxisMax := - MAX_VALUE, mLeftAxisMin := MAX_VALUE,
                mRightAxisMax := - MAX_VALUE, mRightAxisMin := MAX_VALUE\<rparr>;
          c = (case getFirstLeft st (mDataSets c) of
                 None \<Rightarrow> c
               | Some firstLeft \<Rightarrow>
                   fold (\<lambda>r. leftAxisStep (st r)) (mDataSets c)
                     (c\<lparr>mLeftAxisMax := DataSet_getYMax (st firstLeft),
                        mLeftAxisMin := DataSet_getYMin (st firstLeft)\<rparr>))
      in case getFirstRight st (mDataSets c) of
           None \<Rightarrow> c
         | Some firstRight \<Rightarrow>
             fold (\<lambda>r. rightAxisStep (st r)) (mDataSets c)
               (c\<lparr>mRightAxisMax := DataSet_getYMax (st firstRight),
                  mRightAxisMin := DataSet_getYMin (st firstRight)\<rparr>))"

text \<open>The constructor: the field initialisers, the given array, then \<open>notifyDataChanged()\<close>.\<close>

definition notifyDataChanged :: "store \<Rightarrow> ChartData \<Rightarrow> ChartData" where
  "notifyDataChanged st c = calcMinMax st c"

definition newChartData :: "store \<Rightarrow> ref list \<Rightarrow> ChartData" where
  "newChartData st dataSets =
     notifyDataChanged st
       \<lparr>mYMax = - MAX_VALUE, mYMin = MAX_VALUE, mXMax = - MAX_VALUE, mXMin = MAX_VALUE,
        mLeftAxisMax = - MAX_VALUE, mLeftAxisMin = MAX_VALUE,
        mRightAxisMax = - MAX_VALUE, mRightAxisMin = MAX_VALUE,
        mDataSets = dataSets\<rparr>"

definition getDataSetCount :: "ChartData \<Rightarrow> nat" where
  "getDataSetCount c = length (mDataSets c)"

text \<open>\<open>getYMin(axis?)\<close> and \<open>getYMax(axis?)\<close>; the argument left out is \<open>None\<close>.\<close>

definition getYMin :: "AxisDependency option \<Rightarrow> ChartData \<Rightarrow> real" where
  "getYMin ax c =
     (case ax of
        None \<Rightarrow> mYMin c
      | Some a \<Rightarrow>
          if a = LEFT then
            (if mLeftAxisMin c = MAX_VALUE then mRightAxisMin c else mLeftAxisMin c)
          else
            (if mRightAxisMin c = MAX_VALUE then mLeftAxisMin c else mRightAxisMin c))"

definition getYMax :: "AxisDependency option \<Rightarrow> ChartData \<Rightarrow> real" where
  "getYMax ax c =
     (case ax of
        None \<Rightarrow> mYMax c
      | Some a \<Rightarrow>
          if a = LEFT then
            (if mLeftAxisMax c = - MAX_VALUE then mRightAxisMax c else mLeftAxisMax c)
          else
            (if mRightAxisMax c = - MAX_VALUE then mLeftAxisMax c else mRightAxisMax c))"

definition getXMin :: "ChartData \<Rightarrow> real" where
  "getXMin c = mXMin c"

definition getXMax :: "ChartData \<Rightarrow> real" where
  "getXMax c = mXMax c"

text \<open>\<open>getDataSetByIndex(index)\<close>: the data set at that index, or \<open>null\<close>.\<close>

definition getDataSetByIndex :: "int \<Rightarrow> ChartData \<Rightarrow> ref option" where
  "getDataSetByIndex index c =
     (if index < 0 \<or> index \<ge> int (length (mDataSets c)) then None
      else Some (mDataSets c ! nat index))"

text \<open>\<open>addDataSet(d)\<close>: widens the bounds by the new data set, then appends it.\<close>

definition addDataSet :: "ref option \<Rightarrow> store \<Rightarrow> ChartData \<Rightarrow> ChartData" where
  "addDataSet d st c =
     (case d of
        None \<Rightarrow> c
      | Some r \<Rightarrow>
          (let c = calcMinMaxForDataSet (st r) c
           in c\<lparr>mDataSets := mDataSets c @ [r]\<rparr>))"

text \<open>
  \<open>indexOf\<close> on the array of data sets compares references; \<open>splice(index, 1)\<close> takes the
  element at that index out.
\<close>

fun indexOf :: "ref list \<Rightarrow> ref \<Rightarrow> int" where
  "indexOf [] d = -1"
| "indexOf (r # rs) d =
     (if r = d then 0 else (let i = indexOf rs d in if i < 0 then -1 else i + 1))"

definition splice1 :: "nat \<Rightarrow> 'a list \<Rightarrow> 'a list" where
  "splice1 i xs = take i xs @ drop (Suc i) xs"

definition removeDataSet :: "ref option \<Rightarrow> store \<Rightarrow> ChartData \<Rightarrow> bool \<times> ChartData" where
  "removeDataSet d st c =
     (case d of
        None \<Rightarrow> (False, c)
      | Some r \<Rightarrow>
          (let index = indexOf (mDataSets c) r
           in if index \<ge> 0
              then (True, calcMinMax st (c\<lparr>mDataSets := splice1 (nat index) (mDataSets c)\<rparr>))
              else (False, c)))"

definition removeDataSetAtIndex :: "int \<Rightarrow> store \<Rightarrow> ChartData \<Rightarrow> bool \<times> ChartData" where
  "removeDataSetAtIndex index st c =
     (if index \<ge> int (length (mDataSets c)) \<or> index < 0 then (False, c)
      else (True, calcMinMax st (c\<lparr>mDataSets := splice1 (nat index) (mDataSets c)\<rparr>)))"

text \<open>
  \<open>addEntry(e, dataSetIndex)\<close>: adds the entry to the data set at the index (changing that
  object in the store) and widens the bounds by it; an index out of range is only logged.
\<close>

definition addEntry :: "Entry option \<Rightarrow> int \<Rightarrow> store \<times> ChartData \<Rightarrow> store \<times> ChartData" where
  "addEntry e dataSetIndex sc =
     (let st = fst sc; c = snd sc
      in if int (length (mDataSets c)) > dataSetIndex \<and> dataSetIndex \<ge> 0 then
           (let r = mDataSets c ! nat dataSetIndex;
                res = DataSet_addEntry e (st r)
            in if \<not> fst res then (st, c)
               else (st(r := snd res),
                     calcMinMaxForEntry (the e) (getAxisDependency (snd res)) c))
         else (st, c))"

text \<open>
  \<open>removeEntry(e, dataSetIndex)\<close>: a negative index reads \<open>undefined\<close> from the array, which
  the test \<open>set != null\<close> turns into \<open>false\<close>.
\<close>

definition removeEntry ::
  "Entry option \<Rightarrow> int \<Rightarrow> store \<times> ChartData \<Rightarrow> bool \<times> store \<times> ChartData" where
  "removeEntry e dataSetIndex sc =
     (let st = fst sc; c = snd sc
      in if e = None \<or> dataSetIndex \<ge> int (length (mDataSets c)) then (False, st, c)
         else if dataSetIndex < 0 then (False, st, c)
         else
           (let r = mDataSets c ! nat dataSetIndex;
                res = DataSet_removeEntry e (st r);
                st' = st(r := snd res)
            in if fst res then (True, st', calcMinMax st' c) else (False, st', c)))"

text \<open>
  \<open>removeEntryForXValue(xValue, dataSetIndex)\<close>: only the upper end of the index range is
  tested; with a negative index \<open>this.mDataSets[dataSetIndex]\<close> is \<open>undefined\<close>, and the call
  of \<open>getEntryForXValue\<close> on it throws.
\<close>

definition removeEntryForXValue ::
  "real \<Rightarrow> int \<Rightarrow> store \<times> ChartData \<Rightarrow> js_error + (bool \<times> store \<times> ChartData)" where
  "removeEntryForXValue xValue dataSetIndex sc =
     (let st = fst sc; c = snd sc
      in if dataSetIndex \<ge> int (length (mDataSets c)) then Inr (False, st, c)
         else if dataSetIndex < 0 then Inl TypeError
         else
           (case getEntryForXValue (st (mDataSets c ! nat dataSetIndex)) xValue of
              None \<Rightarrow> Inr (False, st, c)
            | Some e \<Rightarrow> Inr (removeEntry (Some e) dataSetIndex sc)))"

text \<open>\<open>clearValues()\<close> and \<open>getEntryCount()\<close>.\<close>

definition clearValues :: "store \<Rightarrow> ChartData \<Rightarrow> ChartData" where
  "clearValues st c = notifyDataChanged st (c\<lparr>mDataSets := []\<rparr>)"

definition getEntryCount :: "store \<Rightarrow> ChartData \<Rightarrow> nat" where
  "getEntryCount st c = fold (\<lambda>r count. count + DataSet_getEntryCount (st r)) (mDataSets c) 0"

text \<open>
  Sequences of operations on a container, and the property of holding exact bounds: every
  aggregate bound equals the minimum or maximum over the entries of the data sets the
  container holds now, and the sentinel where there is none. An entry is finite when its
  coordinates are numbers between \<open>-Number.MAX_VALUE\<close> and \<open>Number.MAX_VALUE\<close>.
\<close>

datatype ChartDataOp =
    AddEntry "Entry option" int
  | RemoveEntry "Entry option" int
  | AddDataSet "ref option"
  | RemoveDataSet "ref option"
  | ClearValues

fun applyOp :: "ChartDataOp \<Rightarrow> store \<times> ChartData \<Rightarrow> store \<times> ChartData" where
  "applyOp (AddEntry e i) sc = addEntry e i sc"
| "applyOp (RemoveEntry e i) sc = snd (removeEntry e i sc)"
| "applyOp (AddDataSet d) sc = (fst sc, addDataSet d (fst sc) (snd sc))"
| "applyOp (RemoveDataSet d) sc = (fst sc, snd (removeDataSet d (fst sc) (snd sc)))"
| "applyOp ClearValues sc = (fst sc, clearValues (fst sc) (snd sc))"

definition finiteEntry :: "Entry \<Rightarrow> bool" where
  "finiteEntry e = (\<bar>getX e\<bar> \<le> MAX_VALUE \<and> \<bar>getY e\<bar> \<le> MAX_VALUE)"

definition finiteStore :: "store \<Rightarrow> bool" where
  "finiteStore st = (\<forall>r. \<forall>e \<in> set (mValues (st r)). finiteEntry e)"

fun finiteOp :: "ChartDataOp \<Rightarrow> bool" where
  "finiteOp (AddEntry (Some e) i) = finiteEntry e"
| "finiteOp _ = True"

definition entriesOf :: "store \<Rightarrow> ref list \<Rightarrow> Entry set" where
  "entriesOf st rs = (\<Union>r \<in> set rs. set (mValues (st r)))"

definition axisEntries :: "store \<Rightarrow> AxisDependency \<Rightarrow> ref list \<Rightarrow> Entry set" where
  "axisEntries st a rs = entriesOf st (filter (\<lambda>r. getAxisDependency (st r) = a) rs)"

definition exactBounds :: "store \<times> ChartData \<Rightarrow> bool" where
  "exactBounds sc =
     (let st = fst sc; c = snd sc; rs = mDataSets c
      in mYMin c = lowest (getY ` entriesOf st rs) \<and>
         mYMax c = highest (getY ` entriesOf st rs) \<and>
         mXMin c = lowest (getX ` entriesOf st rs) \<and>
         mXMax c = highest (getX ` entriesOf st rs) \<and>
         mLeftAxisMin c = lowest (getY ` axisEntries st LEFT rs) \<and>
         mLeftAxisMax c = highest (getY ` axisEntries st LEFT rs) \<and>
         mRightAxisMin c = lowest (getY ` axisEntries st RIGHT rs) \<and>
         mRightAxisMax c = highest (getY ` axisEntries st RIGHT rs))"

definition boundedEntries :: "Entry set \<Rightarrow> bool" where
  "boundedEntries E = (finite E \<and> (\<forall>e\<in>E. finiteEntry e))"

section \<open>ChartHighlighter: from a touch point to the nearest entry\<close>

text \<open>
  A highlight candidate, the object literal that \<open>buildHighlights\<close> creates: the entry's
  values (\<open>x\<close>, \<open>y\<close>), its pixel position, the index of its data set and the axis of that
  data set. It is a plain object with these six fields and no methods, and the lists of
  candidates are plain arrays.
\<close>

record Highlight =
  highX :: real
  highY :: real
  xPx :: real
  yPx :: real
  dataSetIndex :: nat
  axis :: AxisDependency

text \<open>
  What the highlighter asks of its chart (\<open>BarLineScatterCandleBubbleDataProvider\<close>): the
  two functions of the transformer of an axis, the maximum highlight distance and the
  data, which may be \<open>null\<close>. The transformers are outside the sources and are parameters.
\<close>

record DataProvider =
  getValuesByTouchPoint :: "AxisDependency \<Rightarrow> real \<Rightarrow> real \<Rightarrow> real \<times> real"
  getPixelForValues :: "AxisDependency \<Rightarrow> real \<Rightarrow> real \<Rightarrow> real \<times> real"
  getMaxHighlightDistance :: real
  getData :: "(store \<times> ChartData) option"

record ChartHighlighter =
  mHighlightBuffer :: "Highlight list"

definition getValsForTouch :: "DataProvider \<Rightarrow> real \<Rightarrow> real \<Rightarrow> real \<times> real" where
  "getValsForTouch ch x y = getValuesByTouchPoint ch LEFT x y"

definition getHighlightPos :: "Highlight \<Rightarrow> real" where
  "getHighlightPos h = yPx h"

text \<open>
  \<open>getMinimumDistance(closestValues, pos, axis)\<close> reads the candidates with
  \<open>closestValues.get(i)\<close> and their axis with \<open>high.getAxis()\<close>. An array has no method \<open>get\<close>
  and a candidate has no method \<open>getAxis\<close>: either call is a call of \<open>undefined\<close> and throws.
\<close>

definition Array_get :: "'a list \<Rightarrow> nat \<Rightarrow> js_error + 'a" where
  "Array_get xs i = Inl TypeError"

definition Highlight_getAxis :: "Highlight \<Rightarrow> js_error + AxisDependency" where
  "Highlight_getAxis h = Inl TypeError"

text \<open>The loop of \<open>getMinimumDistance\<close> over the indices, carrying \<open>distance\<close>.\<close>

fun minimumDistanceLoop ::
  "Highlight list \<Rightarrow> real \<Rightarrow> AxisDependency \<Rightarrow> nat list \<Rightarrow> real \<Rightarrow> js_error + real" where
  "minimumDistanceLoop closestValues pos ax [] distance = Inr distance"
| "minimumDistanceLoop closestValues pos ax (i # is) distance =
     (case Array_get closestValues i of
        Inl err \<Rightarrow> Inl err
      | Inr high \<Rightarrow>
          (case Highlight_getAxis high of
             Inl err \<Rightarrow> Inl err
           | Inr a \<Rightarrow>
               if a = ax then
                 (let tempDistance = \<bar>getHighlightPos high - pos\<bar>
                  in if tempDistance < distance
                     then minimumDistanceLoop closestValues pos ax is tempDistance
                     else minimumDistanceLoop closestValues pos ax is distance)
               else minimumDistanceLoop closestValues pos ax is distance))"

definition getMinimumDistance ::
  "Highlight list \<Rightarrow> real \<Rightarrow> AxisDependency \<Rightarrow> js_error + real" where
  "getMinimumDistance closestValues pos ax =
     minimumDistanceLoop closestValues pos ax [0..<length closestValues] MAX_VALUE"

text \<open>\<open>getDistance(x1, y1, x2, y2)\<close> is \<open>Math.hypot(x1 - x2, y1 - y2)\<close>.\<close>

definition getDistance :: "real \<Rightarrow> real \<Rightarrow> real \<Rightarrow> real \<Rightarrow> real" where
  "getDistance x1 y1 x2 y2 = sqrt ((x1 - x2)\<^sup>2 + (y1 - y2)\<^sup>2)"

text \<open>
  \<open>getClosestHighlightByPixel(closestValues, x, y, axis, minSelectionDistance)\<close>: the loop
  carries \<open>closest\<close> and \<open>distance\<close>; the axis may be \<open>null\<close>, which admits every candidate.
\<close>

definition closestStep ::
  "real \<Rightarrow> real \<Rightarrow> AxisDependency option \<Rightarrow> Highlight \<Rightarrow>
   Highlight option \<times> real \<Rightarrow> Highlight option \<times> real" where
  "closestStep x y ax high acc =
     (if ax = None \<or> Some (axis high) = ax then
        (let cDistance = getDistance x y (xPx high) (yPx high)
         in if cDistance < snd acc then (Some high, cDistance) else acc)
      else acc)"

definition getClosestHighlightByPixel ::
  "Highlight list \<Rightarrow> real \<Rightarrow> real \<Rightarrow> AxisDependency option \<Rightarrow> real \<Rightarrow> Highlight option" where
  "getClosestHighlightByPixel closestValues x y ax minSelectionDistance =
     fst (fold (closestStep x y ax) closestValues (None, minSelectionDistance))"

text \<open>\<open>buildHighlights(set, dataSetIndex, xVal, rounding)\<close>, called with \<open>Rounding.CLOSEST\<close>.\<close>

definition buildHighlights :: "DataProvider \<Rightarrow> DataSet \<Rightarrow> nat \<Rightarrow> real \<Rightarrow> Highlight list" where
  "buildHighlights ch dset i xVal =
     (let entries = getEntriesForXValue dset xVal;
          entries =
            (if entries = [] then
               (case getEntryForXValue dset xVal of
                  None \<Rightarrow> entries
                | Some closest \<Rightarrow> getEntriesForXValue dset (getX closest))
             else entries)
      in map (\<lambda>e.
               (let pixels = getPixelForValues ch (getAxisDependency dset) (getX e) (getY e)
                in \<lparr>highX = getX e, highY = getY e, xPx = fst pixels, yPx = snd pixels,
                    dataSetIndex = i, axis = getAxisDependency dset\<rparr>))
           entries)"

text \<open>
  The loop of \<open>getHighlightsAtXValue\<close> over the indices of the data sets: the error thrown,
  if any, and the buffer as the loop leaves it. A data set that \<open>getDataSetByIndex\<close> does not
  find would be \<open>null\<close>, and the call of \<open>isHighlightEnabled\<close> on it would throw.
\<close>

fun highlightsLoop ::
  "DataProvider \<Rightarrow> store \<Rightarrow> ChartData \<Rightarrow> real \<Rightarrow> nat list \<Rightarrow> Highlight list \<Rightarrow>
   js_error option \<times> Highlight list" where
  "highlightsLoop ch st c xVal [] buf = (None, buf)"
| "highlightsLoop ch st c xVal (i # is) buf =
     (case getDataSetByIndex (int i) c of
        None \<Rightarrow> (Some TypeError, buf)
      | Some r \<Rightarrow>
          if \<not> isHighlightEnabled (st r) then highlightsLoop ch st c xVal is buf
          else highlightsLoop ch st c xVal is (buf @ buildHighlights ch (st r) i xVal))"

text \<open>
  The methods of the highlighter change its buffer and may throw. Their result is the
  outcome of the call, the value returned or the error thrown, together with the
  highlighter as the call leaves it.

  \<open>getHighlightsAtXValue(xVal, x, y)\<close>: empties the buffer, fills it and returns it.
\<close>

definition getHighlightsAtXValue ::
  "DataProvider \<Rightarrow> ChartHighlighter \<Rightarrow> real \<Rightarrow> real \<Rightarrow> real \<Rightarrow>
   (js_error + Highlight list) \<times> ChartHighlighter" where
  "getHighlightsAtXValue ch hl xVal x y =
     (let hl = hl\<lparr>mHighlightBuffer := []\<rparr>
      in case getData ch of
           None \<Rightarrow> (Inr (mHighlightBuffer hl), hl)
         | Some sc \<Rightarrow>
             (let res = highlightsLoop ch (fst sc) (snd sc) xVal
                          [0..<getDataSetCount (snd sc)] (mHighlightBuffer hl);
                  hl = hl\<lparr>mHighlightBuffer := snd res\<rparr>
              in case fst res of
                   Some err \<Rightarrow> (Inl err, hl)
                 | None \<Rightarrow> (Inr (mHighlightBuffer hl), hl)))"

text \<open>
  \<open>getHighlightForX(xVal, x, y)\<close>: no highlight for an empty list of candidates; otherwise
  the two minimum distances, the nearer axis (the left one only when its distance is
  smaller), and the closest candidate of that axis.
\<close>

definition getHighlightForX ::
  "DataProvider \<Rightarrow> ChartHighlighter \<Rightarrow> real \<Rightarrow> real \<Rightarrow> real \<Rightarrow>
   (js_error + Highlight option) \<times> ChartHighlighter" where
  "getHighlightForX ch hl xVal x y =
     (let res = getHighlightsAtXValue ch hl xVal x y; hl = snd res
      in case fst res of
           Inl err \<Rightarrow> (Inl err, hl)
         | Inr closestValues \<Rightarrow>
             if closestValues = [] then (Inr None, hl)
             else
               (case getMinimumDistance closestValues y LEFT of
                  Inl err \<Rightarrow> (Inl err, hl)
                | Inr leftAxisMinDist \<Rightarrow>
                    (case getMinimumDistance closestValues y RIGHT of
                       Inl err \<Rightarrow> (Inl err, hl)
                     | Inr rightAxisMinDist \<Rightarrow>
                         (let ax = (if leftAxisMinDist < rightAxisMinDist then LEFT else RIGHT)
                          in (Inr (getClosestHighlightByPixel closestValues x y (Some ax)
                                     (getMaxHighlightDistance ch)),
                              hl)))))"

definition getHighlight ::
  "DataProvider \<Rightarrow> ChartHighlighter \<Rightarrow> real \<Rightarrow> real \<Rightarrow>
   (js_error + Highlight option) \<times> ChartHighlighter" where
  "getHighlight ch hl x y =
     (let pos = getValsForTouch ch x y; xVal = fst pos
      in getHighlightForX ch hl xVal x y)"

section \<open>BarLineChartTouchListener: the gesture state machine\<close>

text \<open>
  The matrix of the canvas library (\<open>Matrix\<close>, outside this repository): nine values in
  three rows. \<open>set\<close> copies the values of another matrix; \<open>postTranslate\<close> and \<open>postScale\<close>
  multiply a translation, or a scaling about a pivot, onto the matrix from the left.
\<close>

record Matrix =
  MSCALE_X :: real
  MSKEW_X :: real
  MTRANS_X :: real
  MSKEW_Y :: real
  MSCALE_Y :: real
  MTRANS_Y :: real
  MPERSP_0 :: real
  MPERSP_1 :: real
  MPERSP_2 :: real

definition postTranslate :: "real \<Rightarrow> real \<Rightarrow> Matrix \<Rightarrow> Matrix" where
  "postTranslate dx dy m =
     m\<lparr>MSCALE_X := MSCALE_X m + dx * MPERSP_0 m,
       MSKEW_X := MSKEW_X m + dx * MPERSP_1 m,
       MTRANS_X := MTRANS_X m + dx * MPERSP_2 m,
       MSKEW_Y := MSKEW_Y m + dy * MPERSP_0 m,
       MSCALE_Y := MSCALE_Y m + dy * MPERSP_1 m,
       MTRANS_Y := MTRANS_Y m + dy * MPERSP_2 m\<rparr>"

definition postScale :: "real \<Rightarrow> real \<Rightarrow> real \<Rightarrow> real \<Rightarrow> Matrix \<Rightarrow> Matrix" where
  "postScale sx sy px py m =
     m\<lparr>MSCALE_X := sx * MSCALE_X m + (px - sx * px) * MPERSP_0 m,
       MSKEW_X := sx * MSKEW_X m + (px - sx * px) * MPERSP_1 m,
       MTRANS_X := sx * MTRANS_X m + (px - sx * px) * MPERSP_2 m,
       MSKEW_Y := sy * MSKEW_Y m + (py - sy * py) * MPERSP_0 m,
       MSCALE_Y := sy * MSCALE_Y m + (py - sy * py) * MPERSP_1 m,
       MTRANS_Y := sy * MTRANS_Y m + (py - sy * py) * MPERSP_2 m\<rparr>"

text \<open>The states of a gesture, the touch modes of the listener and the gestures it records.\<close>

datatype GestureState = UNDETERMINED | FAILED | BEGAN | CANCELLED | ACTIVE | END

datatype TouchMode = NONE | DRAG | X_ZOOM | Y_ZOOM | PINCH_ZOOM | POST_ZOOM

datatype ChartGesture =
  Gesture_NONE | Gesture_DRAG | Gesture_X_ZOOM | Gesture_Y_ZOOM | Gesture_PINCH_ZOOM
  | Gesture_SINGLE_TAP

text \<open>
  \<open>mLastGesture\<close> holds a \<open>ChartGesture\<close>, except after \<open>performDrag\<close>, which stores the
  touch-mode constant \<open>ChartTouchListener.DRAG\<close> in it.
\<close>

datatype LastGesture = Gesture ChartGesture | ModeConstant TouchMode

text \<open>
  The data of a gesture event: the state and the previous state, and the fields of
  \<open>extraData\<close> (\<open>evScale\<close>, \<open>evX\<close> and \<open>evY\<close> are \<open>scale\<close>, \<open>x\<close> and \<open>y\<close>).
\<close>

record GestureEvent =
  evState :: GestureState
  evPrevState :: GestureState
  translationX :: real
  translationY :: real
  velocityX :: real
  velocityY :: real
  evScale :: real
  focalX :: real
  focalY :: real
  numberOfPointers :: nat
  positions :: "real list"
  evX :: real
  evY :: real

text \<open>
  What the listener asks of its chart at the time of an event: the flags of the chart,
  the listeners registered per event name, the highlight the chart resolves for a touch
  point, the data (which may be \<open>null\<close>), and of the viewport handler the zoom queries,
  the offsets, the chart height and \<open>refresh\<close>. Chart and viewport handler are outside
  the sources and are parameters.
\<close>

record Chart =
  isHighlightPerDragEnabled :: bool
  isDragEnabled :: bool
  isDragXEnabled :: bool
  isDragYEnabled :: bool
  isScaleXEnabled :: bool
  isScaleYEnabled :: bool
  isPinchZoomEnabled :: bool
  isDoubleTapToZoomEnabled :: bool
  isFullyZoomedOut :: bool
  hasNoDragOffset :: bool
  zoomedPanWith2Pointers :: bool
  isAnyAxisInverted :: bool
  isInverted :: "AxisDependency \<Rightarrow> bool"
  hasListeners :: "string \<Rightarrow> bool"
  getHighlightByTouchPoint :: "real \<Rightarrow> real \<Rightarrow> Highlight option"
  chartData :: "(store \<times> ChartData) option"
  canZoomOutMoreX :: bool
  canZoomInMoreX :: bool
  canZoomOutMoreY :: bool
  canZoomInMoreY :: bool
  offsetLeft :: real
  offsetTop :: real
  offsetBottom :: real
  getChartHeight :: real
  refresh :: "Matrix \<Rightarrow> Matrix"

text \<open>The calls the listener makes on its chart, in the order it makes them.\<close>

datatype ChartCall =
    Notify_pan GestureEvent
  | Notify_pinch GestureEvent
  | Notify_zoom real real real real
  | Notify_translate real real
  | Notify_doubleTap GestureEvent "Highlight option"
  | DisableScroll
  | EnableScroll
  | Invalidate
  | CalculateOffsets
  | HighlightValue Highlight bool
  | Zoom real real real real

text \<open>
  The fields of the listener. A distance between two pointers is \<open>None\<close> when it is
  \<open>NaN\<close>, which is what the subtraction gives when the event holds fewer positions than
  the code reads.
\<close>

record Listener =
  mMatrix :: Matrix
  mSavedMatrix :: Matrix
  mTouchPointCenter :: "real \<times> real"
  mSavedXDist :: "real option"
  mSavedYDist :: "real option"
  mClosestDataSetToTouch :: "DataSet option"
  mDecelerationVelocity :: "real \<times> real"
  mTouchMode :: TouchMode
  mLastGesture :: LastGesture
  mLastHighlighted :: "Highlight option"

definition stopDeceleration :: "Listener \<Rightarrow> Listener" where
  "stopDeceleration l = l\<lparr>mDecelerationVelocity := (0, 0)\<rparr>"

definition saveTouchStart :: "Listener \<Rightarrow> Listener" where
  "saveTouchStart l = l\<lparr>mSavedMatrix := mMatrix l\<rparr>"

definition inverted :: "Chart \<Rightarrow> Listener \<Rightarrow> bool" where
  "inverted ch l =
     (case mClosestDataSetToTouch l of
        None \<Rightarrow> isAnyAxisInverted ch
      | Some d \<Rightarrow> isInverted ch (getAxisDependency d))"

text \<open>\<open>performDrag(event, distanceX, distanceY)\<close>.\<close>

definition performDrag :: "Chart \<Rightarrow> Listener \<Rightarrow> real \<Rightarrow> real \<Rightarrow> Listener \<times> ChartCall list" where
  "performDrag ch l distanceX distanceY =
     (let l = l\<lparr>mLastGesture := ModeConstant DRAG\<rparr>;
          l = l\<lparr>mMatrix := mSavedMatrix l\<rparr>;
          distanceY = (if inverted ch l then - distanceY else distanceY);
          l = l\<lparr>mMatrix := postTranslate distanceX distanceY (mMatrix l)\<rparr>
      in (l, if hasListeners ch ''translate'' then [Notify_translate distanceX distanceY]
             else []))"

text \<open>
  \<open>performHighlightDrag(event)\<close>. The source compares the new highlight with the last one
  by reference (\<open>!==\<close>); highlights are values here and are compared as such.
\<close>

definition performHighlightDrag :: "Chart \<Rightarrow> Listener \<Rightarrow> GestureEvent \<Rightarrow> Listener \<times> ChartCall list" where
  "performHighlightDrag ch l ev =
     (case getHighlightByTouchPoint ch (evX ev) (evY ev) of
        None \<Rightarrow> (l, [])
      | Some h \<Rightarrow>
          if Some h \<noteq> mLastHighlighted l
          then (l\<lparr>mLastHighlighted := Some h\<rparr>, [HighlightValue h True])
          else (l, []))"

text \<open>\<open>getXDist(e)\<close> and \<open>getYDist(e)\<close>: the distance between the two pointers on one axis.\<close>

definition position :: "GestureEvent \<Rightarrow> nat \<Rightarrow> real option" where
  "position ev i = (if i < length (positions ev) then Some (positions ev ! i) else None)"

definition absDifference :: "real option \<Rightarrow> real option \<Rightarrow> real option" where
  "absDifference a b =
     (case a of
        None \<Rightarrow> None
      | Some u \<Rightarrow> (case b of None \<Rightarrow> None | Some v \<Rightarrow> Some \<bar>u - v\<bar>))"

definition getXDist :: "GestureEvent \<Rightarrow> real option" where
  "getXDist ev = absDifference (position ev 0) (position ev 2)"

definition getYDist :: "GestureEvent \<Rightarrow> real option" where
  "getYDist ev = absDifference (position ev 1) (position ev 3)"

text \<open>The comparison \<open>a > b\<close> of two numbers that may be \<open>NaN\<close>: false when either is.\<close>

definition greaterThan :: "real option \<Rightarrow> real option \<Rightarrow> bool" where
  "greaterThan a b =
     (case a of
        None \<Rightarrow> False
      | Some u \<Rightarrow> (case b of None \<Rightarrow> False | Some v \<Rightarrow> u > v))"

text \<open>\<open>getTrans(x, y)\<close>: a touch point relative to the content area.\<close>

definition getTrans :: "Chart \<Rightarrow> Listener \<Rightarrow> real \<Rightarrow> real \<Rightarrow> real \<times> real" where
  "getTrans ch l x y =
     (let xTrans = x - offsetLeft ch;
          yTrans = (if inverted ch l then - (y - offsetTop ch)
                    else - (getChartHeight ch - y - offsetBottom ch))
      in (xTrans, yTrans))"

text \<open>\<open>onPanGestureState(event)\<close>.\<close>

definition onPanGestureState :: "Chart \<Rightarrow> Listener \<Rightarrow> GestureEvent \<Rightarrow> Listener \<times> ChartCall list" where
  "onPanGestureState ch l ev =
     (if \<not> isHighlightPerDragEnabled ch \<and> \<not> isDragEnabled ch then (l, [])
      else if evState ev = ACTIVE then (saveTouchStart (stopDeceleration l), [])
      else if evState ev = END \<or> evState ev = CANCELLED then
        (if mTouchMode l = DRAG then
           (let l = l\<lparr>mTouchMode := NONE\<rparr>;
                l = stopDeceleration l;
                l = l\<lparr>mDecelerationVelocity := (velocityX ev, velocityY ev)\<rparr>
            in (l, [Invalidate]))
         else (l, []))
      else (l, []))"

text \<open>\<open>onPanGestureTouch(event)\<close>.\<close>

definition onPanGestureTouch :: "Chart \<Rightarrow> Listener \<Rightarrow> GestureEvent \<Rightarrow> Listener \<times> ChartCall list" where
  "onPanGestureTouch ch l ev =
     (if \<not> isHighlightPerDragEnabled ch \<and> \<not> isDragEnabled ch then (l, [])
      else if evState ev \<noteq> ACTIVE then (l, [])
      else if mTouchMode l = DRAG then
        (let calls = (if hasListeners ch ''pan'' then [Notify_pan ev] else []) @ [DisableScroll];
             res = performDrag ch l (translationX ev) (translationY ev);
             l = (fst res)\<lparr>mMatrix := refresh ch (mMatrix (fst res))\<rparr>
         in (l, calls @ snd res))
      else if mTouchMode l = NONE then
        (let shouldPan = ((\<not> isFullyZoomedOut ch \<or> \<not> hasNoDragOffset ch) \<and>
                          (\<not> zoomedPanWith2Pointers ch \<or> numberOfPointers ev = 2))
         in if shouldPan then
              (if isDragXEnabled ch \<and> isDragYEnabled ch
               then (l\<lparr>mLastGesture := Gesture Gesture_DRAG, mTouchMode := DRAG\<rparr>,
                     [DisableScroll])
               else (l, []))
            else
              (if isHighlightPerDragEnabled ch then
                 (let res = performHighlightDrag ch (l\<lparr>mLastGesture := Gesture Gesture_DRAG\<rparr>) ev
                  in (fst res, DisableScroll # snd res))
               else (l, [])))
      else (l, []))"

text \<open>\<open>onPinchGestureState(event)\<close>.\<close>

definition onPinchGestureState :: "Chart \<Rightarrow> Listener \<Rightarrow> GestureEvent \<Rightarrow> Listener \<times> ChartCall list" where
  "onPinchGestureState ch l ev =
     (if \<not> isScaleXEnabled ch \<and> \<not> isScaleYEnabled ch then (l, [])
      else if evState ev = ACTIVE then
        (let l = saveTouchStart l;
             l = l\<lparr>mSavedXDist := getXDist ev\<rparr>;
             l = l\<lparr>mSavedYDist := getYDist ev\<rparr>;
             l = (if isPinchZoomEnabled ch then l\<lparr>mTouchMode := PINCH_ZOOM\<rparr>
                  else if isScaleXEnabled ch \<noteq> isScaleYEnabled ch then
                    l\<lparr>mTouchMode := (if isScaleXEnabled ch then X_ZOOM else Y_ZOOM)\<rparr>
                  else
                    l\<lparr>mTouchMode :=
                        (if greaterThan (mSavedXDist l) (mSavedYDist l) then X_ZOOM else Y_ZOOM)\<rparr>);
             l = l\<lparr>mTouchPointCenter := (focalX ev, focalY ev)\<rparr>
         in (l, [DisableScroll]))
      else if evState ev = END \<or> evState ev = CANCELLED then
        (if mTouchMode l = X_ZOOM \<or> mTouchMode l = Y_ZOOM \<or> mTouchMode l = PINCH_ZOOM \<or>
            mTouchMode l = POST_ZOOM
         then (l\<lparr>mTouchMode := NONE\<rparr>, [CalculateOffsets, Invalidate, EnableScroll])
         else (l, [EnableScroll]))
      else (l, []))"

text \<open>\<open>onPinchGestureTouch(event)\<close>.\<close>

definition onPinchGestureTouch :: "Chart \<Rightarrow> Listener \<Rightarrow> GestureEvent \<Rightarrow> Listener \<times> ChartCall list" where
  "onPinchGestureTouch ch l ev =
     (if \<not> isScaleXEnabled ch \<and> \<not> isScaleYEnabled ch then (l, [])
      else if evState ev \<noteq> ACTIVE then (l, [])
      else
        (let calls = (if hasListeners ch ''pinch'' then [Notify_pinch ev] else [])
         in if mTouchMode l = X_ZOOM \<or> mTouchMode l = Y_ZOOM \<or> mTouchMode l = PINCH_ZOOM then
              (let res =
                 (if mTouchMode l = PINCH_ZOOM then
                    (let l = l\<lparr>mLastGesture := Gesture Gesture_PINCH_ZOOM\<rparr>;
                         t = getTrans ch l (fst (mTouchPointCenter l)) (snd (mTouchPointCenter l));
                         scale = evScale ev;
                         isZoomingOut = (scale < 1);
                         canZoomMoreX = (if isZoomingOut then canZoomOutMoreX ch
                                         else canZoomInMoreX ch);
                         canZoomMoreY = (if isZoomingOut then canZoomOutMoreY ch
                                         else canZoomInMoreY ch);
                         scaleX = (if isScaleXEnabled ch then scale else 1);
                         scaleY = (if isScaleYEnabled ch then scale else 1);
                         l = (if canZoomMoreY \<or> canZoomMoreX
                              then l\<lparr>mMatrix := postScale scaleX scaleY (fst t) (snd t)
                                                   (mSavedMatrix l)\<rparr>
                              else l)
                     in (l, if hasListeners ch ''zoom''
                            then [Notify_zoom scaleX scaleY (fst t) (snd t)] else []))
                  else if mTouchMode l = X_ZOOM \<and> isScaleXEnabled ch then
                    (let l = l\<lparr>mLastGesture := Gesture Gesture_X_ZOOM\<rparr>;
                         t = getTrans ch l (fst (mTouchPointCenter l)) (snd (mTouchPointCenter l));
                         scaleX = evScale ev;
                         isZoomingOut = (scaleX < 1);
                         canZoomMoreX = (if isZoomingOut then canZoomOutMoreX ch
                                         else canZoomInMoreX ch);
                         l = (if canZoomMoreX
                              then l\<lparr>mMatrix := postScale scaleX 1 (fst t) (snd t)
                                                   (mSavedMatrix l)\<rparr>
                              else l)
                     in (l, if hasListeners ch ''zoom''
                            then [Notify_zoom scaleX 1 (fst t) (snd t)] else []))
                  else if mTouchMode l = Y_ZOOM \<and> isScaleYEnabled ch then
                    (let l = l\<lparr>mLastGesture := Gesture Gesture_Y_ZOOM\<rparr>;
                         t = getTrans ch l (fst (mTouchPointCenter l)) (snd (mTouchPointCenter l));
                         scaleY = evScale ev;
                         isZoomingOut = (scaleY < 1);
                         canZoomMoreY = (if isZoomingOut then canZoomOutMoreY ch
                                         else canZoomInMoreY ch);
                         l = (if canZoomMoreY
                              then l\<lparr>mMatrix := postScale 1 scaleY (fst t) (snd t)
                                                   (mSavedMatrix l)\<rparr>
                              else l)
                     in (l, if hasListeners ch ''zoom''
                            then [Notify_zoom 1 scaleY (fst t) (snd t)] else []))
                  else (l, []));
                   l = (fst res)\<lparr>mMatrix := refresh ch (mMatrix (fst res))\<rparr>
               in (l, calls @ snd res))
            else (l, calls)))"

text \<open>
  \<open>onDoubleTapGesture(event)\<close>: the listener itself is not changed; the result is the
  calls made on the chart and the error thrown, if any. \<open>chart.getData()\<close> is \<open>null\<close> for a
  chart without data, and the call of \<open>getEntryCount\<close> on it throws.
\<close>

definition onDoubleTapGesture ::
  "Chart \<Rightarrow> Listener \<Rightarrow> GestureEvent \<Rightarrow> ChartCall list \<times> js_error option" where
  "onDoubleTapGesture ch l ev =
     (if evState ev = END \<and> evPrevState ev = ACTIVE then
        (let calls =
               (if hasListeners ch ''doubleTap''
                then [Notify_doubleTap ev (getHighlightByTouchPoint ch (evX ev) (evY ev))]
                else [])
         in if isDoubleTapToZoomEnabled ch then
              (case chartData ch of
                 None \<Rightarrow> (calls, Some TypeError)
               | Some sc \<Rightarrow>
                   if getEntryCount (fst sc) (snd sc) > 0 then
                     (let trans = getTrans ch l (evX ev) (evY ev)
                      in (calls @ [Zoom (if isScaleXEnabled ch then 1.4 else 1)
                                        (if isScaleYEnabled ch then 1.4 else 1)
                                        (fst trans) (snd trans)],
                          None))
                   else (calls, None))
            else (calls, None))
      else ([], None))"

text \<open>
  A gesture of drag moves as the listener performs them: \<open>saveTouchStart\<close> at the start,
  then one \<open>performDrag\<close> per move with the translation the event carries; and the same
  moves as the pan handler receives them.
\<close>

definition dragMoves :: "Chart \<Rightarrow> Listener \<Rightarrow> GestureEvent list \<Rightarrow> Listener" where
  "dragMoves ch l evs =
     fold (\<lambda>ev l. fst (performDrag ch l (translationX ev) (translationY ev))) evs
       (saveTouchStart l)"

definition panTouches :: "Chart \<Rightarrow> Listener \<Rightarrow> GestureEvent list \<Rightarrow> Listener" where
  "panTouches ch l evs = fold (\<lambda>ev l. fst (onPanGestureTouch ch l ev)) evs l"

text \<open>The calls of \<open>chart.zoom\<close> among the calls made.\<close>

fun isZoom :: "ChartCall \<Rightarrow> bool" where
  "isZoom (Zoom sx sy px py) = True"
| "isZoom _ = False"

section \<open>Concrete inputs\<close>

text \<open>Two stores in which every data set belongs to one axis.\<close>

definition rightOnlyStore :: store where
  "rightOnlyStore =
     (\<lambda>r. \<lparr>getAxisDependency = RIGHT, isHighlightEnabled = True,
            mValues = [\<lparr>getX = 1, getY = 2\<rparr>, \<lparr>getX = 3, getY = 5\<rparr>]\<rparr>)"

definition leftOnlyStore :: store where
  "leftOnlyStore =
     (\<lambda>r. \<lparr>getAxisDependency = LEFT, isHighlightEnabled = True,
            mValues = [\<lparr>getX = 0, getY = - 1\<rparr>, \<lparr>getX = 4, getY = 8\<rparr>]\<rparr>)"

text \<open>A store with a left-axis, a right-axis and an empty data set, and a run of operations.\<close>

definition exampleStore :: store where
  "exampleStore =
     (\<lambda>r. if r = 0 then
             \<lparr>getAxisDependency = LEFT, isHighlightEnabled = True,
              mValues = [\<lparr>getX = 0, getY = - 1\<rparr>, \<lparr>getX = 4, getY = 8\<rparr>]\<rparr>
           else if r = 1 then
             \<lparr>getAxisDependency = RIGHT, isHighlightEnabled = True,
              mValues = [\<lparr>getX = 1, getY = 2\<rparr>, \<lparr>getX = 3, getY = 5\<rparr>]\<rparr>
           else
             \<lparr>getAxisDependency = RIGHT, isHighlightEnabled = False, mValues = []\<rparr>)"

definition exampleOps :: "ChartDataOp list" where
  "exampleOps =
     [AddEntry (Some \<lparr>getX = 9, getY = - 4\<rparr>) 1,
      RemoveEntry (Some \<lparr>getX = 4, getY = 8\<rparr>) 0,
      AddDataSet (Some 2),
      AddEntry (Some \<lparr>getX = 6, getY = 7\<rparr>) 5,
      RemoveDataSet (Some 0)]"

text \<open>
  A chart with one entry on each axis, both drawn 10 pixels from the touch point (1, 0),
  and the candidates the highlighter builds for that touch; a chart with one data set; a
  highlighter with an empty buffer.
\<close>

definition tieStore :: store where
  "tieStore =
     (\<lambda>r. if r = 0 then
             \<lparr>getAxisDependency = LEFT, isHighlightEnabled = True,
              mValues = [\<lparr>getX = 1, getY = 10\<rparr>]\<rparr>
           else
             \<lparr>getAxisDependency = RIGHT, isHighlightEnabled = True,
              mValues = [\<lparr>getX = 1, getY = 10\<rparr>]\<rparr>)"

definition tieChart :: DataProvider where
  "tieChart =
     \<lparr>getValuesByTouchPoint = (\<lambda>a x y. (x, y)),
      getPixelForValues = (\<lambda>a x y. (if a = LEFT then x else x + 100, y)),
      getMaxHighlightDistance = 500,
      getData = Some (tieStore, newChartData tieStore [0, 1])\<rparr>"

definition tieCandidates :: "Highlight list" where
  "tieCandidates =
     [\<lparr>highX = 1, highY = 10, xPx = 1, yPx = 10, dataSetIndex = 0, axis = LEFT\<rparr>,
      \<lparr>highX = 1, highY = 10, xPx = 101, yPx = 10, dataSetIndex = 1, axis = RIGHT\<rparr>]"


definition emptyHighlighter :: ChartHighlighter where
  "emptyHighlighter = \<lparr>mHighlightBuffer = []\<rparr>"

text \<open>Candidates at different distances from the touch point.\<close>

definition nearCandidates :: "Highlight list" where
  "nearCandidates =
     [\<lparr>highX = 1, highY = 2, xPx = 6, yPx = 8, dataSetIndex = 0, axis = LEFT\<rparr>,
      \<lparr>highX = 1, highY = 7, xPx = 0, yPx = 1, dataSetIndex = 1, axis = RIGHT\<rparr>,
      \<lparr>highX = 2, highY = 3, xPx = 3, yPx = 4, dataSetIndex = 0, axis = LEFT\<rparr>]"

text \<open>A chart, a listener and a gesture event.\<close>

definition identityMatrix :: Matrix where
  "identityMatrix =
     \<lparr>MSCALE_X = 1, MSKEW_X = 0, MTRANS_X = 0, MSKEW_Y = 0, MSCALE_Y = 1, MTRANS_Y = 0,
      MPERSP_0 = 0, MPERSP_1 = 0, MPERSP_2 = 1\<rparr>"

definition exampleChart :: Chart where
  "exampleChart =
     \<lparr>isHighlightPerDragEnabled = False, isDragEnabled = True, isDragXEnabled = True,
      isDragYEnabled = True, isScaleXEnabled = True, isScaleYEnabled = False,
      isPinchZoomEnabled = False, isDoubleTapToZoomEnabled = True, isFullyZoomedOut = False,
      hasNoDragOffset = True, zoomedPanWith2Pointers = False, isAnyAxisInverted = True,
      isInverted = (\<lambda>a. a = RIGHT), hasListeners = (\<lambda>name. name = ''zoom''),
      getHighlightByTouchPoint = (\<lambda>x y. None),
      chartData = Some (exampleStore, newChartData exampleStore [0, 1]),
      canZoomOutMoreX = False, canZoomInMoreX = True, canZoomOutMoreY = False,
      canZoomInMoreY = True, offsetLeft = 10, offsetTop = 5, offsetBottom = 20,
      getChartHeight = 300,
      refresh = (\<lambda>m. m\<lparr>MSCALE_X := max 1 (MSCALE_X m), MSCALE_Y := max 1 (MSCALE_Y m)\<rparr>)\<rparr>"

definition exampleListener :: Listener where
  "exampleListener =
     \<lparr>mMatrix = identityMatrix\<lparr>MTRANS_X := 7\<rparr>, mSavedMatrix = identityMatrix,
      mTouchPointCenter = (0, 0), mSavedXDist = Some 1, mSavedYDist = Some 1,
      mClosestDataSetToTouch = None, mDecelerationVelocity = (0, 0), mTouchMode = NONE,
      mLastGesture = Gesture Gesture_NONE, mLastHighlighted = None\<rparr>"

definition exampleEvent :: GestureEvent where
  "exampleEvent =
     \<lparr>evState = ACTIVE, evPrevState = BEGAN, translationX = 10, translationY = 5,
      velocityX = 0, velocityY = 0, evScale = 0.5, focalX = 50, focalY = 50,
      numberOfPointers = 2, positions = [10, 20, 110, 60], evX = 50, evY = 50\<rparr>"

text \<open>
  The invariant of the loop of \<open>getClosestHighlightByPixel\<close> over the candidates \<open>S\<close> seen so
  far: \<open>distance\<close> never exceeds the selection distance nor the distance of a seen candidate
  of the axis, and \<open>closest\<close> is a seen candidate of the axis at exactly that distance, or
  \<open>null\<close> while \<open>distance\<close> is still the selection distance.
\<close>

definition closestInv ::
  "real \<Rightarrow> real \<Rightarrow> AxisDependency \<Rightarrow> real \<Rightarrow> Highlight set \<Rightarrow> Highlight option \<times> real \<Rightarrow> bool" where
  "closestInv x y a d S acc =
     (snd acc \<le> d \<and>
      (\<forall>h\<in>S. axis h = a \<longrightarrow> snd acc \<le> getDistance x y (xPx h) (yPx h)) \<and>
      (case fst acc of
         None \<Rightarrow> snd acc = d
       | Some h \<Rightarrow> h \<in> S \<and> axis h = a \<and> getDistance x y (xPx h) (yPx h) = snd acc \<and>
                  snd acc < d))"

section \<open>Facts about the sentinels and the exact bounds\<close>

lemma MAX_VALUE_pos: "0 < MAX_VALUE"
  by (simp add: MAX_VALUE_def)

lemma MAX_VALUE_large: "1024 \<le> MAX_VALUE"
proof -
  have a: "(2::real) ^ 10 \<le> 2 ^ 971" by (rule power_increasing) simp_all
  have b: "(1::real) \<le> 2 ^ 53 - 1" by simp
  have "(1::real) * 2 ^ 10 \<le> (2 ^ 53 - 1) * 2 ^ 971"
    using b a by (rule mult_mono) simp_all
  then show ?thesis by (simp add: MAX_VALUE_def)
qed

text \<open>Comparisons of small numbers with the sentinels, for evaluating concrete inputs.\<close>

lemma small_MAX:
  "v \<le> 1000 \<Longrightarrow> v < MAX_VALUE"
  "v \<le> 1000 \<Longrightarrow> \<not> MAX_VALUE < v"
  "v \<le> 1000 \<Longrightarrow> \<not> MAX_VALUE \<le> v"
  "v \<le> 1000 \<Longrightarrow> v \<le> MAX_VALUE"
  "v \<le> 1000 \<Longrightarrow> MAX_VALUE \<noteq> v"
  "v \<le> 1000 \<Longrightarrow> v \<noteq> MAX_VALUE"
  "- 1000 \<le> v \<Longrightarrow> - MAX_VALUE < v"
  "- 1000 \<le> v \<Longrightarrow> \<not> v < - MAX_VALUE"
  "- 1000 \<le> v \<Longrightarrow> \<not> v \<le> - MAX_VALUE"
  "- 1000 \<le> v \<Longrightarrow> - MAX_VALUE \<le> v"
  "- 1000 \<le> v \<Longrightarrow> - MAX_VALUE \<noteq> v"
  "- 1000 \<le> v \<Longrightarrow> v \<noteq> - MAX_VALUE"
  using MAX_VALUE_large by auto

lemma neg_MAX:
  "- MAX_VALUE < MAX_VALUE" "\<not> MAX_VALUE < - MAX_VALUE"
  "MAX_VALUE \<noteq> - MAX_VALUE" "- MAX_VALUE \<noteq> MAX_VALUE"
  using MAX_VALUE_pos by auto

lemma lowest_le: "finite S \<Longrightarrow> \<forall>v\<in>S. v \<le> MAX_VALUE \<Longrightarrow> lowest S \<le> MAX_VALUE"
  by (auto simp: lowest_def)

lemma highest_ge: "finite S \<Longrightarrow> \<forall>v\<in>S. - MAX_VALUE \<le> v \<Longrightarrow> - MAX_VALUE \<le> highest S"
  by (auto simp: highest_def)

lemma lowest_Un:
  assumes "finite A" "finite B" "\<forall>v\<in>A \<union> B. v \<le> MAX_VALUE"
  shows "lowest (A \<union> B) = min (lowest A) (lowest B)"
proof (cases "A = {}")
  case True
  with assms lowest_le[of B] show ?thesis by (simp add: lowest_def min_def)
next
  case A: False
  show ?thesis
  proof (cases "B = {}")
    case True
    with assms lowest_le[of A] show ?thesis by (simp add: lowest_def min_def)
  next
    case False
    with A assms show ?thesis by (simp add: lowest_def Min_Un)
  qed
qed

lemma highest_Un:
  assumes "finite A" "finite B" "\<forall>v\<in>A \<union> B. - MAX_VALUE \<le> v"
  shows "highest (A \<union> B) = max (highest A) (highest B)"
proof (cases "A = {}")
  case True
  with assms highest_ge[of B] show ?thesis by (simp add: highest_def max_def)
next
  case A: False
  show ?thesis
  proof (cases "B = {}")
    case True
    with assms highest_ge[of A] show ?thesis by (simp add: highest_def max_def)
  next
    case False
    with A assms show ?thesis by (simp add: highest_def Max_Un)
  qed
qed

lemma calcMinMaxForDataSet_eq:
  "calcMinMaxForDataSet d c =
     c\<lparr>mYMax := max (mYMax c) (DataSet_getYMax d),
       mYMin := min (mYMin c) (DataSet_getYMin d),
       mXMax := max (mXMax c) (DataSet_getXMax d),
       mXMin := min (mXMin c) (DataSet_getXMin d),
       mLeftAxisMax := (if getAxisDependency d = LEFT then max (mLeftAxisMax c) (DataSet_getYMax d) else mLeftAxisMax c),
       mLeftAxisMin := (if getAxisDependency d = LEFT then min (mLeftAxisMin c) (DataSet_getYMin d) else mLeftAxisMin c),
       mRightAxisMax := (if getAxisDependency d = LEFT then mRightAxisMax c else max (mRightAxisMax c) (DataSet_getYMax d)),
       mRightAxisMin := (if getAxisDependency d = LEFT then mRightAxisMin c else min (mRightAxisMin c) (DataSet_getYMin d))\<rparr>"
  by (simp add: calcMinMaxForDataSet_def Let_def max_def min_def)

lemma calcMinMaxForEntry_eq:
  "calcMinMaxForEntry e a c =
     c\<lparr>mYMax := max (mYMax c) (getY e),
       mYMin := min (mYMin c) (getY e),
       mXMax := max (mXMax c) (getX e),
       mXMin := min (mXMin c) (getX e),
       mLeftAxisMax := (if a = LEFT then max (mLeftAxisMax c) (getY e) else mLeftAxisMax c),
       mLeftAxisMin := (if a = LEFT then min (mLeftAxisMin c) (getY e) else mLeftAxisMin c),
       mRightAxisMax := (if a = LEFT then mRightAxisMax c else max (mRightAxisMax c) (getY e)),
       mRightAxisMin := (if a = LEFT then mRightAxisMin c else min (mRightAxisMin c) (getY e))\<rparr>"
  by (simp add: calcMinMaxForEntry_def Let_def max_def min_def)

lemma leftAxisStep_eq:
  "leftAxisStep d c =
     c\<lparr>mLeftAxisMax := (if getAxisDependency d = LEFT then max (mLeftAxisMax c) (DataSet_getYMax d) else mLeftAxisMax c),
       mLeftAxisMin := (if getAxisDependency d = LEFT then min (mLeftAxisMin c) (DataSet_getYMin d) else mLeftAxisMin c)\<rparr>"
  by (simp add: leftAxisStep_def Let_def max_def min_def)

lemma rightAxisStep_eq:
  "rightAxisStep d c =
     c\<lparr>mRightAxisMax := (if getAxisDependency d = RIGHT then max (mRightAxisMax c) (DataSet_getYMax d) else mRightAxisMax c),
       mRightAxisMin := (if getAxisDependency d = RIGHT then min (mRightAxisMin c) (DataSet_getYMin d) else mRightAxisMin c)\<rparr>"
  by (simp add: rightAxisStep_def Let_def max_def min_def)

lemma Min_insert_min: "finite S \<Longrightarrow> Min (insert (min m v) S) = Min (insert m (insert v S))"
  by (cases "S = {}") (simp_all add: min.assoc)

lemma Max_insert_max: "finite S \<Longrightarrow> Max (insert (max m v) S) = Max (insert m (insert v S))"
  by (cases "S = {}") (simp_all add: max.assoc)

abbreviation (input) leftRefs :: "store \<Rightarrow> ref list \<Rightarrow> ref list" where
  "leftRefs st rs \<equiv> filter (\<lambda>r. getAxisDependency (st r) = LEFT) rs"

abbreviation (input) rightRefs :: "store \<Rightarrow> ref list \<Rightarrow> ref list" where
  "rightRefs st rs \<equiv> filter (\<lambda>r. getAxisDependency (st r) = RIGHT) rs"

lemma not_LEFT [simp]: "(a \<noteq> LEFT) = (a = RIGHT)"
  by (cases a) simp_all

lemma fold_calcMinMaxForDataSet:
  "fold (\<lambda>r. calcMinMaxForDataSet (st r)) rs c =
     c\<lparr>mYMax := Max (insert (mYMax c) ((\<lambda>r. DataSet_getYMax (st r)) ` set rs)),
       mYMin := Min (insert (mYMin c) ((\<lambda>r. DataSet_getYMin (st r)) ` set rs)),
       mXMax := Max (insert (mXMax c) ((\<lambda>r. DataSet_getXMax (st r)) ` set rs)),
       mXMin := Min (insert (mXMin c) ((\<lambda>r. DataSet_getXMin (st r)) ` set rs)),
       mLeftAxisMax := Max (insert (mLeftAxisMax c) ((\<lambda>r. DataSet_getYMax (st r)) ` set (leftRefs st rs))),
       mLeftAxisMin := Min (insert (mLeftAxisMin c) ((\<lambda>r. DataSet_getYMin (st r)) ` set (leftRefs st rs))),
       mRightAxisMax := Max (insert (mRightAxisMax c) ((\<lambda>r. DataSet_getYMax (st r)) ` set (rightRefs st rs))),
       mRightAxisMin := Min (insert (mRightAxisMin c) ((\<lambda>r. DataSet_getYMin (st r)) ` set (rightRefs st rs)))\<rparr>"
proof (induction rs arbitrary: c)
  case Nil
  show ?case by simp
next
  case (Cons r rs)
  have step: "fold (\<lambda>r. calcMinMaxForDataSet (st r)) (r # rs) c =
        fold (\<lambda>r. calcMinMaxForDataSet (st r)) rs (calcMinMaxForDataSet (st r) c)"
    by simp
  show ?case
    unfolding step Cons.IH
    by (cases "getAxisDependency (st r)")
       (simp_all add: calcMinMaxForDataSet_eq Min_insert_min Max_insert_max del: Min_insert Max_insert)
qed

lemma fold_leftAxisStep:
  "fold (\<lambda>r. leftAxisStep (st r)) rs c =
     c\<lparr>mLeftAxisMax := Max (insert (mLeftAxisMax c) ((\<lambda>r. DataSet_getYMax (st r)) ` set (leftRefs st rs))),
       mLeftAxisMin := Min (insert (mLeftAxisMin c) ((\<lambda>r. DataSet_getYMin (st r)) ` set (leftRefs st rs)))\<rparr>"
proof (induction rs arbitrary: c)
  case Nil
  show ?case by simp
next
  case (Cons r rs)
  have step: "fold (\<lambda>r. leftAxisStep (st r)) (r # rs) c =
        fold (\<lambda>r. leftAxisStep (st r)) rs (leftAxisStep (st r) c)"
    by simp
  show ?case
    unfolding step Cons.IH
    by (cases "getAxisDependency (st r)")
       (simp_all add: leftAxisStep_eq Min_insert_min Max_insert_max del: Min_insert Max_insert)
qed

lemma fold_rightAxisStep:
  "fold (\<lambda>r. rightAxisStep (st r)) rs c =
     c\<lparr>mRightAxisMax := Max (insert (mRightAxisMax c) ((\<lambda>r. DataSet_getYMax (st r)) ` set (rightRefs st rs))),
       mRightAxisMin := Min (insert (mRightAxisMin c) ((\<lambda>r. DataSet_getYMin (st r)) ` set (rightRefs st rs)))\<rparr>"
proof (induction rs arbitrary: c)
  case Nil
  show ?case by simp
next
  case (Cons r rs)
  have step: "fold (\<lambda>r. rightAxisStep (st r)) (r # rs) c =
        fold (\<lambda>r. rightAxisStep (st r)) rs (rightAxisStep (st r) c)"
    by simp
  show ?case
    unfolding step Cons.IH
    by (cases "getAxisDependency (st r)")
       (simp_all add: rightAxisStep_eq Min_insert_min Max_insert_max del: Min_insert Max_insert)
qed

lemma entriesOf_Nil [simp]: "entriesOf st [] = {}"
  by (simp add: entriesOf_def)

lemma entriesOf_Cons [simp]: "entriesOf st (r # rs) = set (mValues (st r)) \<union> entriesOf st rs"
  by (simp add: entriesOf_def)

lemma entriesOf_append [simp]: "entriesOf st (rs @ qs) = entriesOf st rs \<union> entriesOf st qs"
  by (auto simp add: entriesOf_def)

lemma finite_entriesOf [simp]: "finite (entriesOf st rs)"
  by (simp add: entriesOf_def)

lemma Min_insert2: "finite S \<Longrightarrow> Min (insert a (insert b S)) = min b (Min (insert a S))"
  by (cases "S = {}") (auto simp: min.left_commute min.commute)

lemma Max_insert2: "finite S \<Longrightarrow> Max (insert a (insert b S)) = max b (Max (insert a S))"
  by (cases "S = {}") (auto simp: max.left_commute max.commute)

lemma Min_lowest:
  assumes "\<forall>r\<in>set rs. \<forall>e\<in>set (mValues (st r)). f e \<le> MAX_VALUE"
  shows "Min (insert MAX_VALUE ((\<lambda>r. lowest (f ` set (mValues (st r)))) ` set rs)) =
         lowest (f ` entriesOf st rs)"
  using assms
proof (induction rs)
  case Nil
  show ?case by (simp add: lowest_def)
next
  case (Cons r rs)
  have bnd: "\<forall>v\<in>f ` set (mValues (st r)) \<union> f ` entriesOf st rs. v \<le> MAX_VALUE"
    using Cons.prems by (auto simp: entriesOf_def)
  have "Min (insert MAX_VALUE ((\<lambda>r. lowest (f ` set (mValues (st r)))) ` set (r # rs))) =
        min (lowest (f ` set (mValues (st r))))
            (Min (insert MAX_VALUE ((\<lambda>r. lowest (f ` set (mValues (st r)))) ` set rs)))"
    by (simp add: Min_insert2 del: Min_insert)
  also have "\<dots> = min (lowest (f ` set (mValues (st r)))) (lowest (f ` entriesOf st rs))"
    using Cons by simp
  also have "\<dots> = lowest (f ` set (mValues (st r)) \<union> f ` entriesOf st rs)"
    using bnd by (simp add: lowest_Un)
  finally show ?case by (simp add: image_Un)
qed

lemma Max_highest:
  assumes "\<forall>r\<in>set rs. \<forall>e\<in>set (mValues (st r)). - MAX_VALUE \<le> f e"
  shows "Max (insert (- MAX_VALUE) ((\<lambda>r. highest (f ` set (mValues (st r)))) ` set rs)) =
         highest (f ` entriesOf st rs)"
  using assms
proof (induction rs)
  case Nil
  show ?case by (simp add: highest_def)
next
  case (Cons r rs)
  have bnd: "\<forall>v\<in>f ` set (mValues (st r)) \<union> f ` entriesOf st rs. - MAX_VALUE \<le> v"
    using Cons.prems by (auto simp: entriesOf_def)
  have "Max (insert (- MAX_VALUE) ((\<lambda>r. highest (f ` set (mValues (st r)))) ` set (r # rs))) =
        max (highest (f ` set (mValues (st r))))
            (Max (insert (- MAX_VALUE) ((\<lambda>r. highest (f ` set (mValues (st r)))) ` set rs)))"
    by (simp add: Max_insert2 del: Max_insert)
  also have "\<dots> = max (highest (f ` set (mValues (st r)))) (highest (f ` entriesOf st rs))"
    using Cons by simp
  also have "\<dots> = highest (f ` set (mValues (st r)) \<union> f ` entriesOf st rs)"
    using bnd by (simp add: highest_Un)
  finally show ?case by (simp add: image_Un)
qed

text \<open>The same, seeded with the bound of a member instead of the sentinel.\<close>

lemma Min_lowest_member:
  assumes "\<forall>r\<in>set rs. \<forall>e\<in>set (mValues (st r)). f e \<le> MAX_VALUE" and "q \<in> set rs"
  shows "Min (insert (lowest (f ` set (mValues (st q)))) ((\<lambda>r. lowest (f ` set (mValues (st r)))) ` set rs)) =
         lowest (f ` entriesOf st rs)"
proof -
  let ?G = "(\<lambda>r. lowest (f ` set (mValues (st r)))) ` set rs"
  have ne: "?G \<noteq> {}" using assms(2) by auto
  have le: "Min ?G \<le> MAX_VALUE"
  proof -
    have "Min ?G \<le> lowest (f ` set (mValues (st q)))" using assms(2) by (intro Min_le) auto
    also have "\<dots> \<le> MAX_VALUE" using assms by (intro lowest_le) auto
    finally show ?thesis .
  qed
  have "insert (lowest (f ` set (mValues (st q)))) ?G = ?G" using assms(2) by auto
  then have "Min (insert (lowest (f ` set (mValues (st q)))) ?G) = Min ?G" by simp
  also have "\<dots> = min MAX_VALUE (Min ?G)" using le by (simp only: min.absorb2)
  also have "\<dots> = Min (insert MAX_VALUE ?G)" using ne by (intro Min_insert [symmetric]) auto
  also have "\<dots> = lowest (f ` entriesOf st rs)" using assms(1) by (rule Min_lowest)
  finally show ?thesis .
qed

lemma Max_highest_member:
  assumes "\<forall>r\<in>set rs. \<forall>e\<in>set (mValues (st r)). - MAX_VALUE \<le> f e" and "q \<in> set rs"
  shows "Max (insert (highest (f ` set (mValues (st q)))) ((\<lambda>r. highest (f ` set (mValues (st r)))) ` set rs)) =
         highest (f ` entriesOf st rs)"
proof -
  let ?G = "(\<lambda>r. highest (f ` set (mValues (st r)))) ` set rs"
  have ne: "?G \<noteq> {}" using assms(2) by auto
  have le: "- MAX_VALUE \<le> Max ?G"
  proof -
    have "- MAX_VALUE \<le> highest (f ` set (mValues (st q)))" using assms by (intro highest_ge) auto
    also have "\<dots> \<le> Max ?G" using assms(2) by (intro Max_ge) auto
    finally show ?thesis .
  qed
  have "insert (highest (f ` set (mValues (st q)))) ?G = ?G" using assms(2) by auto
  then have "Max (insert (highest (f ` set (mValues (st q)))) ?G) = Max ?G" by simp
  also have "\<dots> = max (- MAX_VALUE) (Max ?G)" using le by (simp only: max.absorb2)
  also have "\<dots> = Max (insert (- MAX_VALUE) ?G)" using ne by (intro Max_insert [symmetric]) auto
  also have "\<dots> = highest (f ` entriesOf st rs)" using assms(1) by (rule Max_highest)
  finally show ?thesis .
qed

lemma finiteStore_le:
  "finiteStore st \<Longrightarrow> e \<in> set (mValues (st r)) \<Longrightarrow>
     getX e \<le> MAX_VALUE \<and> getY e \<le> MAX_VALUE \<and> - MAX_VALUE \<le> getX e \<and> - MAX_VALUE \<le> getY e"
  by (fastforce simp: finiteStore_def finiteEntry_def)

lemma calcMinMax_fields:
  "mDataSets (calcMinMax st c) = mDataSets c"
  "mYMin (calcMinMax st c) = Min (insert MAX_VALUE ((\<lambda>r. DataSet_getYMin (st r)) ` set (mDataSets c)))"
  "mYMax (calcMinMax st c) = Max (insert (- MAX_VALUE) ((\<lambda>r. DataSet_getYMax (st r)) ` set (mDataSets c)))"
  "mXMin (calcMinMax st c) = Min (insert MAX_VALUE ((\<lambda>r. DataSet_getXMin (st r)) ` set (mDataSets c)))"
  "mXMax (calcMinMax st c) = Max (insert (- MAX_VALUE) ((\<lambda>r. DataSet_getXMax (st r)) ` set (mDataSets c)))"
  "mLeftAxisMin (calcMinMax st c) =
     (case getFirstLeft st (mDataSets c) of
        None \<Rightarrow> MAX_VALUE
      | Some q \<Rightarrow> Min (insert (DataSet_getYMin (st q))
                     ((\<lambda>r. DataSet_getYMin (st r)) ` set (leftRefs st (mDataSets c)))))"
  "mLeftAxisMax (calcMinMax st c) =
     (case getFirstLeft st (mDataSets c) of
        None \<Rightarrow> - MAX_VALUE
      | Some q \<Rightarrow> Max (insert (DataSet_getYMax (st q))
                     ((\<lambda>r. DataSet_getYMax (st r)) ` set (leftRefs st (mDataSets c)))))"
  "mRightAxisMin (calcMinMax st c) =
     (case getFirstRight st (mDataSets c) of
        None \<Rightarrow> MAX_VALUE
      | Some q \<Rightarrow> Min (insert (DataSet_getYMin (st q))
                     ((\<lambda>r. DataSet_getYMin (st r)) ` set (rightRefs st (mDataSets c)))))"
  "mRightAxisMax (calcMinMax st c) =
     (case getFirstRight st (mDataSets c) of
        None \<Rightarrow> - MAX_VALUE
      | Some q \<Rightarrow> Max (insert (DataSet_getYMax (st q))
                     ((\<lambda>r. DataSet_getYMax (st r)) ` set (rightRefs st (mDataSets c)))))"
  by (simp_all add: calcMinMax_def Let_def fold_calcMinMaxForDataSet fold_leftAxisStep
        fold_rightAxisStep split: option.split del: Min_insert Max_insert)

lemma getFirstLeft_None: "getFirstLeft st rs = None \<Longrightarrow> leftRefs st rs = []"
  by (auto simp: getFirstLeft_def find_None_iff filter_empty_conv)

lemma getFirstRight_None: "getFirstRight st rs = None \<Longrightarrow> rightRefs st rs = []"
  by (auto simp: getFirstRight_def find_None_iff filter_empty_conv)

lemma getFirstLeft_Some: "getFirstLeft st rs = Some q \<Longrightarrow> q \<in> set (leftRefs st rs)"
  by (auto simp: getFirstLeft_def find_Some_iff)

lemma getFirstRight_Some: "getFirstRight st rs = Some q \<Longrightarrow> q \<in> set (rightRefs st rs)"
  by (auto simp: getFirstRight_def find_Some_iff)

lemma finiteStore_bounds:
  assumes "finiteStore st"
  shows "\<forall>r\<in>set rs. \<forall>e\<in>set (mValues (st r)). getY e \<le> MAX_VALUE"
    and "\<forall>r\<in>set rs. \<forall>e\<in>set (mValues (st r)). getX e \<le> MAX_VALUE"
    and "\<forall>r\<in>set rs. \<forall>e\<in>set (mValues (st r)). - MAX_VALUE \<le> getY e"
    and "\<forall>r\<in>set rs. \<forall>e\<in>set (mValues (st r)). - MAX_VALUE \<le> getX e"
  using assms by (auto dest: finiteStore_le)

lemma calcMinMax_exact:
  assumes fin: "finiteStore st"
  shows "exactBounds (st, calcMinMax st c)"
proof -
  let ?rs = "mDataSets c"
  note b = finiteStore_bounds [OF fin]
  have g: "mYMin (calcMinMax st c) = lowest (getY ` entriesOf st ?rs)"
          "mYMax (calcMinMax st c) = highest (getY ` entriesOf st ?rs)"
          "mXMin (calcMinMax st c) = lowest (getX ` entriesOf st ?rs)"
          "mXMax (calcMinMax st c) = highest (getX ` entriesOf st ?rs)"
    by (simp_all only: calcMinMax_fields DataSet_getYMin_def DataSet_getYMax_def
          DataSet_getXMin_def DataSet_getXMax_def Min_lowest [OF b(1)] Min_lowest [OF b(2)]
          Max_highest [OF b(3)] Max_highest [OF b(4)])
  have l: "mLeftAxisMin (calcMinMax st c) = lowest (getY ` axisEntries st LEFT ?rs) \<and>
          mLeftAxisMax (calcMinMax st c) = highest (getY ` axisEntries st LEFT ?rs)"
  proof (cases "getFirstLeft st ?rs")
    case None
    then show ?thesis
      by (simp add: calcMinMax_fields axisEntries_def getFirstLeft_None lowest_def highest_def)
  next
    case (Some q)
    then show ?thesis
      using Min_lowest_member [OF b(1) getFirstLeft_Some [OF Some]]
            Max_highest_member [OF b(3) getFirstLeft_Some [OF Some]]
      by (simp only: calcMinMax_fields axisEntries_def DataSet_getYMin_def DataSet_getYMax_def
            option.case)
  qed
  have r: "mRightAxisMin (calcMinMax st c) = lowest (getY ` axisEntries st RIGHT ?rs) \<and>
          mRightAxisMax (calcMinMax st c) = highest (getY ` axisEntries st RIGHT ?rs)"
  proof (cases "getFirstRight st ?rs")
    case None
    then show ?thesis
      by (simp add: calcMinMax_fields axisEntries_def getFirstRight_None lowest_def highest_def)
  next
    case (Some q)
    then show ?thesis
      using Min_lowest_member [OF b(1) getFirstRight_Some [OF Some]]
            Max_highest_member [OF b(3) getFirstRight_Some [OF Some]]
      by (simp only: calcMinMax_fields axisEntries_def DataSet_getYMin_def DataSet_getYMax_def
            option.case)
  qed
  show ?thesis
    by (simp add: exactBounds_def Let_def calcMinMax_fields(1) g l r)
qed

lemma lowest_insert:
  assumes "finite S" "v \<le> MAX_VALUE" "\<forall>s\<in>S. s \<le> MAX_VALUE"
  shows "lowest (insert v S) = min (lowest S) v"
proof -
  have "lowest (S \<union> {v}) = min (lowest S) (lowest {v})"
    using assms by (intro lowest_Un) auto
  then show ?thesis by (simp add: lowest_def)
qed

lemma highest_insert:
  assumes "finite S" "- MAX_VALUE \<le> v" "\<forall>s\<in>S. - MAX_VALUE \<le> s"
  shows "highest (insert v S) = max (highest S) v"
proof -
  have "highest (S \<union> {v}) = max (highest S) (highest {v})"
    using assms by (intro highest_Un) auto
  then show ?thesis by (simp add: highest_def)
qed

lemma boundedEntries_values: "finiteStore st \<Longrightarrow> boundedEntries (set (mValues (st r)))"
  by (simp add: boundedEntries_def finiteStore_def)

lemma boundedEntries_entriesOf: "finiteStore st \<Longrightarrow> boundedEntries (entriesOf st rs)"
  by (auto simp: boundedEntries_def finiteStore_def entriesOf_def)

lemma boundedEntries_axisEntries: "finiteStore st \<Longrightarrow> boundedEntries (axisEntries st a rs)"
  by (simp add: axisEntries_def boundedEntries_entriesOf)

lemma bounds_Un:
  assumes "boundedEntries A" "boundedEntries B"
  shows "lowest (getY ` A \<union> getY ` B) = min (lowest (getY ` A)) (lowest (getY ` B))"
    and "lowest (getX ` A \<union> getX ` B) = min (lowest (getX ` A)) (lowest (getX ` B))"
    and "highest (getY ` A \<union> getY ` B) = max (highest (getY ` A)) (highest (getY ` B))"
    and "highest (getX ` A \<union> getX ` B) = max (highest (getX ` A)) (highest (getX ` B))"
  using assms
  by (auto intro!: lowest_Un highest_Un simp: boundedEntries_def finiteEntry_def abs_le_iff)

lemma bounds_insert:
  assumes "boundedEntries A" "finiteEntry e"
  shows "lowest (insert (getY e) (getY ` A)) = min (lowest (getY ` A)) (getY e)"
    and "lowest (insert (getX e) (getX ` A)) = min (lowest (getX ` A)) (getX e)"
    and "highest (insert (getY e) (getY ` A)) = max (highest (getY ` A)) (getY e)"
    and "highest (insert (getX e) (getX ` A)) = max (highest (getX ` A)) (getX e)"
  using assms
  by (auto intro!: lowest_insert highest_insert simp: boundedEntries_def finiteEntry_def abs_le_iff)

lemma axisEntries_append:
  "axisEntries st a (rs @ [r]) =
     (if getAxisDependency (st r) = a then axisEntries st a rs \<union> set (mValues (st r))
      else axisEntries st a rs)"
  by (simp add: axisEntries_def)

lemma addDataSet_exact:
  assumes fin: "finiteStore st" and ex: "exactBounds (st, c)"
  shows "exactBounds (st, addDataSet d st c)"
proof (cases d)
  case None
  with ex show ?thesis by (simp add: addDataSet_def)
next
  case (Some r)
  note bd = boundedEntries_values [OF fin] boundedEntries_entriesOf [OF fin]
    boundedEntries_axisEntries [OF fin]
  show ?thesis
    using ex unfolding Some
    by (cases "getAxisDependency (st r)")
       (simp_all add: exactBounds_def addDataSet_def Let_def calcMinMaxForDataSet_eq
          axisEntries_append image_Un bounds_Un bd
          DataSet_getYMin_def DataSet_getYMax_def DataSet_getXMin_def DataSet_getXMax_def)
qed

lemma entriesOf_upd_in:
  "r \<in> set rs \<Longrightarrow> mValues d = mValues (st r) @ [e] \<Longrightarrow>
     entriesOf (st(r := d)) rs = insert e (entriesOf st rs)"
  by (auto simp: entriesOf_def split: if_splits)

lemma entriesOf_upd_notin:
  "r \<notin> set rs \<Longrightarrow> entriesOf (st(r := d)) rs = entriesOf st rs"
  by (fastforce simp: entriesOf_def split: if_splits)

lemma filter_axis_upd:
  "getAxisDependency d = getAxisDependency (st r) \<Longrightarrow>
     filter (\<lambda>q. getAxisDependency ((st(r := d)) q) = a) rs =
     filter (\<lambda>q. getAxisDependency (st q) = a) rs"
  by (rule filter_cong) auto

lemma axisEntries_upd:
  assumes "r \<in> set rs" "mValues d = mValues (st r) @ [e]"
          "getAxisDependency d = getAxisDependency (st r)"
  shows "axisEntries (st(r := d)) a rs =
           (if getAxisDependency (st r) = a then insert e (axisEntries st a rs)
            else axisEntries st a rs)"
proof -
  let ?R = "filter (\<lambda>q. getAxisDependency (st q) = a) rs"
  have f: "axisEntries (st(r := d)) a rs = entriesOf (st(r := d)) ?R"
    unfolding axisEntries_def using assms(3) by (simp only: filter_axis_upd)
  show ?thesis
  proof (cases "getAxisDependency (st r) = a")
    case True
    with assms(1) have "r \<in> set ?R" by simp
    then have "entriesOf (st(r := d)) ?R = insert e (entriesOf st ?R)"
      using assms(2) by (rule entriesOf_upd_in)
    with True show ?thesis unfolding f by (simp add: axisEntries_def)
  next
    case False
    then have "r \<notin> set ?R" by simp
    then have "entriesOf (st(r := d)) ?R = entriesOf st ?R"
      by (rule entriesOf_upd_notin)
    with False show ?thesis unfolding f by (simp add: axisEntries_def)
  qed
qed

lemma finiteStore_upd:
  "finiteStore st \<Longrightarrow> \<forall>e\<in>set (mValues d). finiteEntry e \<Longrightarrow> finiteStore (st(r := d))"
  by (simp add: finiteStore_def)

lemma finiteStore_entry: "finiteStore st \<Longrightarrow> e \<in> set (mValues (st r)) \<Longrightarrow> finiteEntry e"
  by (auto simp: finiteStore_def)

lemma addEntry_exact:
  assumes fin: "finiteStore st" and ex: "exactBounds (st, c)" and fe: "finiteOp (AddEntry e i)"
  shows "exactBounds (addEntry e i (st, c)) \<and> finiteStore (fst (addEntry e i (st, c)))"
proof (cases "int (length (mDataSets c)) > i \<and> i \<ge> 0 \<and> e \<noteq> None")
  case False
  with fin ex show ?thesis
    by (auto simp: addEntry_def Let_def DataSet_addEntry_def split: option.splits)
next
  case True
  then obtain v where e: "e = Some v" by auto
  from fe e have fv: "finiteEntry v" by simp
  let ?r = "mDataSets c ! nat i"
  let ?d = "(st ?r)\<lparr>mValues := mValues (st ?r) @ [v]\<rparr>"
  from True have mem: "?r \<in> set (mDataSets c)" by (intro nth_mem) auto
  have res: "addEntry e i (st, c) =
               (st(?r := ?d), calcMinMaxForEntry v (getAxisDependency (st ?r)) c)"
    using True by (simp add: addEntry_def Let_def DataSet_addEntry_def e)
  have fin': "finiteStore (st(?r := ?d))"
    using fin fv by (intro finiteStore_upd) (auto dest: finiteStore_entry)
  have ee: "entriesOf (st(?r := ?d)) (mDataSets c) = insert v (entriesOf st (mDataSets c))"
    using mem by (intro entriesOf_upd_in) simp_all
  have ae: "\<And>a. axisEntries (st(?r := ?d)) a (mDataSets c) =
           (if getAxisDependency (st ?r) = a then insert v (axisEntries st a (mDataSets c))
            else axisEntries st a (mDataSets c))"
    using mem by (intro axisEntries_upd) simp_all
  note bd = boundedEntries_entriesOf [OF fin] boundedEntries_axisEntries [OF fin]
  have "exactBounds (st(?r := ?d), calcMinMaxForEntry v (getAxisDependency (st ?r)) c)"
    using ex
    by (cases "getAxisDependency (st ?r)")
       (simp_all add: exactBounds_def Let_def calcMinMaxForEntry_eq ee ae bounds_insert bd fv)
  with fin' res show ?thesis by simp
qed

lemma removeEntry_exact:
  assumes fin: "finiteStore st" and ex: "exactBounds (st, c)"
  shows "exactBounds (snd (removeEntry e i (st, c))) \<and> finiteStore (fst (snd (removeEntry e i (st, c))))"
proof (cases "fst (removeEntry e i (st, c))")
  case False
  then have "snd (removeEntry e i (st, c)) = (st, c)"
    by (auto simp: removeEntry_def Let_def DataSet_removeEntry_def split: option.splits if_splits)
  with fin ex show ?thesis by simp
next
  case True
  then obtain v where e: "e = Some v" and rng: "0 \<le> i" "i < int (length (mDataSets c))"
    and v: "v \<in> set (mValues (st (mDataSets c ! nat i)))"
    by (auto simp: removeEntry_def Let_def DataSet_removeEntry_def split: option.splits if_splits)
  let ?r = "mDataSets c ! nat i"
  let ?d = "(st ?r)\<lparr>mValues := remove1 v (mValues (st ?r))\<rparr>"
  have res: "snd (removeEntry e i (st, c)) = (st(?r := ?d), calcMinMax (st(?r := ?d)) c)"
    using rng v by (simp add: removeEntry_def Let_def DataSet_removeEntry_def e)
  have fin': "finiteStore (st(?r := ?d))"
    using fin by (intro finiteStore_upd) (auto dest: finiteStore_entry set_remove1_subset [THEN subsetD])
  show ?thesis
    unfolding res using fin' by (simp add: calcMinMax_exact)
qed

lemma applyOp_exact:
  assumes "finiteStore (fst sc)" "exactBounds sc" "finiteOp op"
  shows "exactBounds (applyOp op sc) \<and> finiteStore (fst (applyOp op sc))"
proof -
  obtain st c where sc: "sc = (st, c)" by (cases sc)
  show ?thesis
  proof (cases op)
    case (AddEntry e i)
    with assms show ?thesis unfolding sc by (simp add: addEntry_exact)
  next
    case (RemoveEntry e i)
    with assms show ?thesis unfolding sc by (simp add: removeEntry_exact)
  next
    case (AddDataSet d)
    with assms show ?thesis unfolding sc by (simp add: addDataSet_exact)
  next
    case (RemoveDataSet d)
    with assms show ?thesis unfolding sc
      by (auto simp: removeDataSet_def Let_def calcMinMax_exact split: option.splits)
  next
    case ClearValues
    with assms show ?thesis unfolding sc
      by (simp add: clearValues_def notifyDataChanged_def calcMinMax_exact)
  qed
qed

section \<open>The running bounds of the data container\<close>

text \<open>
  C8. After every sequence of \<open>addEntry\<close>, \<open>removeEntry\<close>, \<open>addDataSet\<close>, \<open>removeDataSet\<close> and
  \<open>clearValues\<close> on a container built by the constructor, all of whose entries are finite
  numbers, the bounds \<open>mXMin\<close>, \<open>mXMax\<close>, \<open>mYMin\<close>, \<open>mYMax\<close> and the left and right y-bounds are
  the exact minima and maxima over the entries of the data sets the container holds, and
  the sentinels where there is no entry.
\<close>

theorem bounds_exact_after_operations:
  assumes "finiteStore st" and "\<forall>op \<in> set ops. finiteOp op"
  shows "exactBounds (fold applyOp ops (st, newChartData st dataSets))"
proof -
  have "exactBounds sc \<and> finiteStore (fst sc) \<Longrightarrow> \<forall>op \<in> set ops. finiteOp op \<Longrightarrow>
        exactBounds (fold applyOp ops sc) \<and> finiteStore (fst (fold applyOp ops sc))" for sc
  proof (induction ops arbitrary: sc)
    case Nil
    then show ?case by simp
  next
    case (Cons op ops)
    then show ?case using applyOp_exact [of sc op] by simp
  qed
  moreover have "exactBounds (st, newChartData st dataSets)"
    using assms(1) by (simp add: newChartData_def notifyDataChanged_def calcMinMax_exact)
  ultimately show ?thesis using assms by simp
qed

lemma finite_exampleStore: "finiteStore exampleStore"
  by (simp add: finiteStore_def finiteEntry_def exampleStore_def small_MAX)

lemma finite_exampleOps: "\<forall>op \<in> set exampleOps. finiteOp op"
  by (simp add: exampleOps_def finiteEntry_def small_MAX)

lemma mDataSets_calc [simp]:
  "mDataSets (calcMinMaxForEntry e a c) = mDataSets c"
  "mDataSets (calcMinMaxForDataSet d c) = mDataSets c"
  "mDataSets (calcMinMax st c) = mDataSets c"
  by (simp_all add: calcMinMaxForEntry_eq calcMinMaxForDataSet_eq calcMinMax_fields(1))

lemma example_final_sets:
  "mDataSets (snd (fold applyOp exampleOps (exampleStore, newChartData exampleStore [0, 1]))) = [1, 2]"
  by (simp add: exampleOps_def addEntry_def removeEntry_def addDataSet_def removeDataSet_def
        splice1_def Let_def DataSet_addEntry_def DataSet_removeEntry_def
        exampleStore_def newChartData_def notifyDataChanged_def clearValues_def)

lemma example_final_store:
  "mValues (fst (fold applyOp exampleOps (exampleStore, newChartData exampleStore [0, 1])) 1) =
     [\<lparr>getX = 1, getY = 2\<rparr>, \<lparr>getX = 3, getY = 5\<rparr>, \<lparr>getX = 9, getY = - 4\<rparr>] \<and>
   mValues (fst (fold applyOp exampleOps (exampleStore, newChartData exampleStore [0, 1])) 2) = [] \<and>
   getAxisDependency (fst (fold applyOp exampleOps (exampleStore, newChartData exampleStore [0, 1])) 1) = RIGHT \<and>
   getAxisDependency (fst (fold applyOp exampleOps (exampleStore, newChartData exampleStore [0, 1])) 2) = RIGHT"
  by (simp add: exampleOps_def addEntry_def removeEntry_def addDataSet_def removeDataSet_def
        splice1_def Let_def DataSet_addEntry_def DataSet_removeEntry_def
        exampleStore_def newChartData_def notifyDataChanged_def clearValues_def)

theorem bounds_exact_after_operations_witness:
  "finiteStore exampleStore \<and>
   mDataSets (snd (fold applyOp exampleOps (exampleStore, newChartData exampleStore [0, 1]))) = [1, 2] \<and>
   mYMin (snd (fold applyOp exampleOps (exampleStore, newChartData exampleStore [0, 1]))) = - 4 \<and>
   mYMax (snd (fold applyOp exampleOps (exampleStore, newChartData exampleStore [0, 1]))) = 5 \<and>
   mXMin (snd (fold applyOp exampleOps (exampleStore, newChartData exampleStore [0, 1]))) = 1 \<and>
   mXMax (snd (fold applyOp exampleOps (exampleStore, newChartData exampleStore [0, 1]))) = 9 \<and>
   mLeftAxisMin (snd (fold applyOp exampleOps (exampleStore, newChartData exampleStore [0, 1]))) = MAX_VALUE \<and>
   mRightAxisMin (snd (fold applyOp exampleOps (exampleStore, newChartData exampleStore [0, 1]))) = - 4"
proof -
  let ?s = "fold applyOp exampleOps (exampleStore, newChartData exampleStore [0, 1])"
  have ex: "exactBounds ?s"
    by (rule bounds_exact_after_operations [OF finite_exampleStore finite_exampleOps])
  have all: "entriesOf (fst ?s) [1, 2] =
               {\<lparr>getX = 1, getY = 2\<rparr>, \<lparr>getX = 3, getY = 5\<rparr>, \<lparr>getX = 9, getY = - 4\<rparr>}"
    using example_final_store by simp
  have left: "axisEntries (fst ?s) LEFT [1, 2] = {}"
    using example_final_store by (simp add: axisEntries_def)
  have right: "axisEntries (fst ?s) RIGHT [1, 2] =
               {\<lparr>getX = 1, getY = 2\<rparr>, \<lparr>getX = 3, getY = 5\<rparr>, \<lparr>getX = 9, getY = - 4\<rparr>}"
    using example_final_store by (simp add: axisEntries_def)
  from ex show ?thesis
    unfolding exactBounds_def Let_def example_final_sets all left right
    using finite_exampleStore by (simp add: lowest_def highest_def)
qed

section \<open>Fallback of the per-axis bounds\<close>

text \<open>
  A container recomputed without a data set of one axis holds the sentinels of that axis.
\<close>

lemma no_left_data_set_sentinels:
  assumes "\<forall>r\<in>set (mDataSets c). getAxisDependency (st r) = RIGHT"
  shows "mLeftAxisMin (calcMinMax st c) = MAX_VALUE \<and>
         mLeftAxisMax (calcMinMax st c) = - MAX_VALUE"
proof -
  from assms have "getFirstLeft st (mDataSets c) = None"
    by (auto simp: getFirstLeft_def find_None_iff)
  then show ?thesis by (simp add: calcMinMax_fields(6,7))
qed

lemma no_right_data_set_sentinels:
  assumes "\<forall>r\<in>set (mDataSets c). getAxisDependency (st r) = LEFT"
  shows "mRightAxisMin (calcMinMax st c) = MAX_VALUE \<and>
         mRightAxisMax (calcMinMax st c) = - MAX_VALUE"
proof -
  from assms have "getFirstRight st (mDataSets c) = None"
    by (auto simp: getFirstRight_def find_None_iff)
  then show ?thesis by (simp add: calcMinMax_fields(8,9))
qed

text \<open>
  C10. While the left-axis minimum (maximum) of a container still holds its sentinel,
  \<open>getYMin(LEFT)\<close> (\<open>getYMax(LEFT)\<close>) returns the right-axis minimum (maximum); and in the
  same way \<open>getYMin(RIGHT)\<close> and \<open>getYMax(RIGHT)\<close> fall back to the left-axis bounds while the
  right-axis bounds hold their sentinels.
\<close>

theorem getYMin_getYMax_fallback:
  "(mLeftAxisMin c = MAX_VALUE \<longrightarrow> getYMin (Some LEFT) c = mRightAxisMin c) \<and>
   (mLeftAxisMax c = - MAX_VALUE \<longrightarrow> getYMax (Some LEFT) c = mRightAxisMax c) \<and>
   (mRightAxisMin c = MAX_VALUE \<longrightarrow> getYMin (Some RIGHT) c = mLeftAxisMin c) \<and>
   (mRightAxisMax c = - MAX_VALUE \<longrightarrow> getYMax (Some RIGHT) c = mLeftAxisMax c)"
  by (simp add: getYMin_def getYMax_def)

lemmas evalChartData =
  newChartData_def notifyDataChanged_def calcMinMax_def calcMinMaxForDataSet_def
  calcMinMaxForEntry_def getFirstLeft_def getFirstRight_def rightAxisStep_def leftAxisStep_def
  DataSet_getYMin_def DataSet_getYMax_def DataSet_getXMin_def DataSet_getXMax_def
  lowest_def highest_def Let_def small_MAX neg_MAX

theorem getYMin_getYMax_fallback_witness:
  "mLeftAxisMin (newChartData rightOnlyStore [0]) = MAX_VALUE \<and>
   getYMin (Some LEFT) (newChartData rightOnlyStore [0]) = 2 \<and>
   mLeftAxisMax (newChartData rightOnlyStore [0]) = - MAX_VALUE \<and>
   getYMax (Some LEFT) (newChartData rightOnlyStore [0]) = 5 \<and>
   mRightAxisMin (newChartData leftOnlyStore [0]) = MAX_VALUE \<and>
   getYMin (Some RIGHT) (newChartData leftOnlyStore [0]) = - 1 \<and>
   mRightAxisMax (newChartData leftOnlyStore [0]) = - MAX_VALUE \<and>
   getYMax (Some RIGHT) (newChartData leftOnlyStore [0]) = 8"
proof -
  have r: "mLeftAxisMin (newChartData rightOnlyStore [0]) = MAX_VALUE"
          "mLeftAxisMax (newChartData rightOnlyStore [0]) = - MAX_VALUE"
          "mRightAxisMin (newChartData rightOnlyStore [0]) = 2"
          "mRightAxisMax (newChartData rightOnlyStore [0]) = 5"
    by (simp_all add: evalChartData rightOnlyStore_def)
  have l: "mRightAxisMin (newChartData leftOnlyStore [0]) = MAX_VALUE"
          "mRightAxisMax (newChartData leftOnlyStore [0]) = - MAX_VALUE"
          "mLeftAxisMin (newChartData leftOnlyStore [0]) = - 1"
          "mLeftAxisMax (newChartData leftOnlyStore [0]) = 8"
    by (simp_all add: evalChartData leftOnlyStore_def)
  show ?thesis
    using getYMin_getYMax_fallback [of "newChartData rightOnlyStore [0]"]
          getYMin_getYMax_fallback [of "newChartData leftOnlyStore [0]"] r l
    by simp
qed

section \<open>Lookups and removals with an index out of range\<close>

lemma getDataSetByIndex_out_of_range:
  "index < 0 \<or> index \<ge> int (getDataSetCount c) \<Longrightarrow> getDataSetByIndex index c = None"
  by (auto simp: getDataSetByIndex_def getDataSetCount_def)

lemma removeEntry_out_of_range:
  "index < 0 \<or> index \<ge> int (getDataSetCount (snd sc)) \<Longrightarrow>
     removeEntry e index sc = (False, sc)"
  by (cases sc) (auto simp: removeEntry_def getDataSetCount_def Let_def)

lemma removeEntryForXValue_index_too_high:
  "index \<ge> int (getDataSetCount (snd sc)) \<Longrightarrow>
     removeEntryForXValue xValue index sc = Inr (False, sc)"
  by (cases sc) (simp add: removeEntryForXValue_def getDataSetCount_def Let_def)

lemma removeEntryForXValue_below_zero:
  "index < 0 \<Longrightarrow> removeEntryForXValue xValue index sc = Inl TypeError"
  by (simp add: removeEntryForXValue_def Let_def)

text \<open>
  C7. With an index out of range \<open>getDataSetByIndex\<close> returns \<open>null\<close> and \<open>removeEntry\<close> returns
  \<open>false\<close>, the container unchanged, as the lemmas above show, and so does
  \<open>removeEntryForXValue\<close> for an index that is too high. For a negative index
  \<open>removeEntryForXValue\<close> does not return \<open>false\<close>: it throws, here at the index \<open>-1\<close> on a
  container with one data set, where \<open>removeEntry\<close> returns \<open>false\<close>.
\<close>

theorem removeEntryForXValue_negative_index_throws:
  "getDataSetCount (newChartData rightOnlyStore [0]) = 1 \<and>
   removeEntryForXValue 1 (- 1) (rightOnlyStore, newChartData rightOnlyStore [0]) = Inl TypeError \<and>
   removeEntry (Some \<lparr>getX = 1, getY = 2\<rparr>) (- 1) (rightOnlyStore, newChartData rightOnlyStore [0]) =
     (False, rightOnlyStore, newChartData rightOnlyStore [0])"
  by (simp add: removeEntryForXValue_def removeEntry_def getDataSetCount_def Let_def
        newChartData_def notifyDataChanged_def calcMinMax_fields(1))

section \<open>The nearest axis and the nearest candidate\<close>

lemma minimumDistanceLoop_throws:
  "is \<noteq> [] \<Longrightarrow> minimumDistanceLoop hs pos a is d = Inl TypeError"
  by (cases "is") (simp_all add: Array_get_def)

lemma getMinimumDistance_Nil: "getMinimumDistance [] pos a = Inr MAX_VALUE"
  by (simp add: getMinimumDistance_def)

lemma getMinimumDistance_throws:
  "hs \<noteq> [] \<Longrightarrow> getMinimumDistance hs pos a = Inl TypeError"
  by (simp add: getMinimumDistance_def minimumDistanceLoop_throws)

text \<open>
  So \<open>getHighlightForX\<close> returns no highlight when there is no candidate and throws when
  there is one; it never reaches the comparison of the two distances.
\<close>

lemma getHighlightForX_outcome:
  "fst (getHighlightForX ch hl xVal x y) =
     (case fst (getHighlightsAtXValue ch hl xVal x y) of
        Inl err \<Rightarrow> Inl err
      | Inr closestValues \<Rightarrow> if closestValues = [] then Inr None else Inl TypeError)"
  by (simp add: getHighlightForX_def Let_def getMinimumDistance_throws split: sum.splits)

lemma tieChart_candidates:
  "fst (getHighlightsAtXValue tieChart emptyHighlighter 1 1 0) = Inr tieCandidates"
  by (simp add: getHighlightsAtXValue_def tieChart_def tieStore_def tieCandidates_def
        emptyHighlighter_def newChartData_def notifyDataChanged_def getDataSetCount_def
        getDataSetByIndex_def buildHighlights_def getEntriesForXValue_def Let_def)

text \<open>
  C1. With one candidate on each axis at the same vertical distance from the touch, the
  claim has the left axis chosen. The source chooses no axis: for the candidates of the
  chart \<open>tieChart\<close> at the touch point (1, 0), both 10 pixels away, \<open>getMinimumDistance\<close> throws
  at its first \<open>closestValues.get(i)\<close>, and \<open>getHighlightForX\<close> with it.
\<close>

theorem getHighlightForX_tie_throws:
  "tieCandidates \<noteq> [] \<and>
   \<bar>getHighlightPos (tieCandidates ! 0) - 0\<bar> = \<bar>getHighlightPos (tieCandidates ! 1) - 0\<bar> \<and>
   fst (getHighlightsAtXValue tieChart emptyHighlighter 1 1 0) = Inr tieCandidates \<and>
   getMinimumDistance tieCandidates 0 LEFT = Inl TypeError \<and>
   fst (getHighlightForX tieChart emptyHighlighter 1 1 0) = Inl TypeError"
proof -
  have ne: "tieCandidates \<noteq> []" by (simp add: tieCandidates_def)
  have eq: "\<bar>getHighlightPos (tieCandidates ! 0) - 0\<bar> = \<bar>getHighlightPos (tieCandidates ! 1) - 0\<bar>"
    by (simp add: tieCandidates_def getHighlightPos_def)
  have md: "getMinimumDistance tieCandidates 0 LEFT = Inl TypeError"
    using ne by (rule getMinimumDistance_throws)
  have fx: "fst (getHighlightForX tieChart emptyHighlighter 1 1 0) = Inl TypeError"
    using ne by (simp add: getHighlightForX_outcome tieChart_candidates)
  show ?thesis by (intro conjI ne eq tieChart_candidates md fx)
qed

lemma closestStep_inv:
  assumes "closestInv x y a d S acc"
  shows "closestInv x y a d (insert h S) (closestStep x y (Some a) h acc)"
  using assms
  by (cases acc; cases "fst acc")
     (auto simp: closestInv_def closestStep_def Let_def split: option.splits)

lemma closest_fold_inv:
  "closestInv x y a d S acc \<Longrightarrow>
     closestInv x y a d (S \<union> set hs) (fold (closestStep x y (Some a)) hs acc)"
proof (induction hs arbitrary: S acc)
  case Nil
  then show ?case by simp
next
  case (Cons h hs)
  from Cons.prems have "closestInv x y a d (insert h S) (closestStep x y (Some a) h acc)"
    by (rule closestStep_inv)
  from Cons.IH [OF this] show ?case by simp
qed

lemma closest_result_inv:
  "closestInv x y a d (set hs) (fold (closestStep x y (Some a)) hs (None, d))"
proof -
  have "closestInv x y a d {} (None, d)" by (simp add: closestInv_def)
  from closest_fold_inv [OF this, of hs] show ?thesis by simp
qed

text \<open>
  C2. \<open>getClosestHighlightByPixel\<close> returns none exactly when no candidate of the winning axis
  is at a Euclidean pixel distance strictly below the selection distance \<open>d\<close>; and a candidate
  it returns is one of the candidates, lies on the winning axis, is nearer than \<open>d\<close>, and no
  candidate of that axis is nearer to the touch point.
\<close>

theorem getClosestHighlightByPixel_nearest:
  "(getClosestHighlightByPixel hs x y (Some a) d = None \<longleftrightarrow>
      (\<forall>h\<in>set hs. axis h = a \<longrightarrow> \<not> getDistance x y (xPx h) (yPx h) < d)) \<and>
   (\<forall>h. getClosestHighlightByPixel hs x y (Some a) d = Some h \<longrightarrow>
      h \<in> set hs \<and> axis h = a \<and> getDistance x y (xPx h) (yPx h) < d \<and>
      (\<forall>h'\<in>set hs. axis h' = a \<longrightarrow>
         getDistance x y (xPx h) (yPx h) \<le> getDistance x y (xPx h') (yPx h')))"
proof -
  obtain r dist where f: "fold (closestStep x y (Some a)) hs (None, d) = (r, dist)"
    by (cases "fold (closestStep x y (Some a)) hs (None, d)")
  have inv: "closestInv x y a d (set hs) (r, dist)"
    using closest_result_inv [of x y a d hs] by (simp add: f)
  have res: "getClosestHighlightByPixel hs x y (Some a) d = r"
    by (simp add: getClosestHighlightByPixel_def f)
  show ?thesis
  proof (cases r)
    case None
    with inv show ?thesis unfolding res by (fastforce simp: closestInv_def)
  next
    case (Some h)
    with inv show ?thesis unfolding res by (fastforce simp: closestInv_def)
  qed
qed

lemma getDistance_3_4: "getDistance 0 0 3 4 = 5"
proof -
  have "sqrt ((5::real)\<^sup>2) = 5" by (simp only: real_sqrt_abs abs_numeral)
  then show ?thesis by (simp add: getDistance_def)
qed

lemma getDistance_6_8: "getDistance 0 0 6 8 = 10"
proof -
  have "sqrt ((10::real)\<^sup>2) = 10" by (simp only: real_sqrt_abs abs_numeral)
  then show ?thesis by (simp add: getDistance_def)
qed

lemma getDistance_0_1: "getDistance 0 0 0 1 = 1"
  by (simp add: getDistance_def)

theorem getClosestHighlightByPixel_nearest_witness:
  "getClosestHighlightByPixel nearCandidates 0 0 (Some LEFT) 500 =
     Some \<lparr>highX = 2, highY = 3, xPx = 3, yPx = 4, dataSetIndex = 0, axis = LEFT\<rparr> \<and>
   getClosestHighlightByPixel nearCandidates 0 0 (Some LEFT) 5 = None \<and>
   getDistance 0 0 3 4 < 500"
proof -
  have e1: "getClosestHighlightByPixel nearCandidates 0 0 (Some LEFT) 500 =
     Some \<lparr>highX = 2, highY = 3, xPx = 3, yPx = 4, dataSetIndex = 0, axis = LEFT\<rparr>"
    by (simp add: nearCandidates_def getDistance_3_4 getDistance_6_8 getDistance_0_1
          getClosestHighlightByPixel_def closestStep_def Let_def)
  have e2: "getClosestHighlightByPixel nearCandidates 0 0 (Some LEFT) 5 = None"
    by (simp add: nearCandidates_def getDistance_3_4 getDistance_6_8 getDistance_0_1
          getClosestHighlightByPixel_def closestStep_def Let_def)
  from getClosestHighlightByPixel_nearest [of nearCandidates 0 0 LEFT 500] e1
  have "getDistance 0 0 3 4 < 500" by simp
  with e1 e2 show ?thesis by simp
qed

section \<open>The highlighter and its buffer\<close>

lemma highlightsLoop_in_range:
  "\<forall>i\<in>set is. i < length (mDataSets c) \<Longrightarrow> fst (highlightsLoop ch st c xVal is buf) = None"
proof (induction "is" arbitrary: buf)
  case Nil
  show ?case by simp
next
  case (Cons i "is")
  then have "getDataSetByIndex (int i) c = Some (mDataSets c ! i)"
    by (simp add: getDataSetByIndex_def)
  with Cons show ?case by simp
qed

lemma getHighlightsAtXValue_returns:
  "\<exists>closestValues. fst (getHighlightsAtXValue ch hl xVal x y) = Inr closestValues"
proof (cases "getData ch")
  case None
  then show ?thesis by (simp add: getHighlightsAtXValue_def)
next
  case (Some sc)
  have "fst (highlightsLoop ch (fst sc) (snd sc) xVal [0..<getDataSetCount (snd sc)] []) = None"
    by (rule highlightsLoop_in_range) (simp add: getDataSetCount_def)
  with Some show ?thesis by (simp add: getHighlightsAtXValue_def Let_def)
qed

text \<open>
  The buffer a call finds does not enter its outcome, nor the buffer it leaves: every
  call empties the buffer first.
\<close>

lemma buffer_reset: "(hl::ChartHighlighter)\<lparr>mHighlightBuffer := b\<rparr> = hl'\<lparr>mHighlightBuffer := b\<rparr>"
  by (cases hl, cases hl') simp

lemma getHighlightsAtXValue_buffer_free:
  "getHighlightsAtXValue ch hl xVal x y = getHighlightsAtXValue ch hl' xVal x y"
  by (simp only: getHighlightsAtXValue_def buffer_reset [where hl = hl and hl' = hl' and b = "[]"])

lemma getHighlight_buffer_free: "getHighlight ch hl x y = getHighlight ch hl' x y"
  by (simp only: getHighlight_def getHighlightForX_def
        getHighlightsAtXValue_buffer_free [where hl = hl and hl' = hl'])

text \<open>
  The outcome of \<open>getHighlight\<close> is no highlight (when there is no candidate) or an error
  (when there is one); a candidate is never returned.
\<close>

lemma getHighlight_outcome:
  "fst (getHighlight ch hl x y) = Inr None \<or> fst (getHighlight ch hl x y) = Inl TypeError"
proof -
  obtain closestValues where
    "fst (getHighlightsAtXValue ch hl (fst (getValsForTouch ch x y)) x y) = Inr closestValues"
    using getHighlightsAtXValue_returns by blast
  then show ?thesis by (simp add: getHighlight_def Let_def getHighlightForX_outcome)
qed

lemma getHighlight_no_candidate: "fst (getHighlight ch hl x y) \<noteq> Inr (Some h)"
  using getHighlight_outcome [of ch hl x y] by auto



section \<open>Dragging\<close>

lemma performDrag_matrix:
  "mMatrix (fst (performDrag ch l dx dy)) =
     postTranslate dx (if inverted ch l then - dy else dy) (mSavedMatrix l)"
  by (simp add: performDrag_def Let_def inverted_def)

lemma performDrag_unchanged:
  "mSavedMatrix (fst (performDrag ch l dx dy)) = mSavedMatrix l"
  "mClosestDataSetToTouch (fst (performDrag ch l dx dy)) = mClosestDataSetToTouch l"
  "mTouchMode (fst (performDrag ch l dx dy)) = mTouchMode l"
  by (simp_all add: performDrag_def Let_def)

lemma fold_performDrag_unchanged:
  "mSavedMatrix (fold (\<lambda>ev l. fst (performDrag ch l (translationX ev) (translationY ev))) evs l) =
     mSavedMatrix l \<and>
   mClosestDataSetToTouch
     (fold (\<lambda>ev l. fst (performDrag ch l (translationX ev) (translationY ev))) evs l) =
     mClosestDataSetToTouch l"
  by (induction evs arbitrary: l) (simp_all add: performDrag_unchanged)

text \<open>
  C3. After the matrix is saved at the start of the gesture, the live matrix after any
  sequence of drag moves is the saved matrix with the one translation of the last move
  composed onto it, its \<open>dy\<close> negated when the axis is inverted; the earlier moves leave
  no trace.
\<close>

theorem dragMoves_last_translation:
  assumes "evs \<noteq> []"
  shows "mMatrix (dragMoves ch l evs) =
           postTranslate (translationX (last evs))
             (if inverted ch l then - translationY (last evs) else translationY (last evs))
             (mMatrix l)"
proof -
  let ?step = "\<lambda>ev l. fst (performDrag ch l (translationX ev) (translationY ev))"
  let ?l0 = "saveTouchStart l"
  from assms obtain es e where evs: "evs = es @ [e]"
    by (cases evs rule: rev_cases) auto
  let ?l1 = "fold ?step es ?l0"
  have unch: "mSavedMatrix ?l1 = mSavedMatrix ?l0" "mClosestDataSetToTouch ?l1 = mClosestDataSetToTouch ?l0"
    using fold_performDrag_unchanged [of ch es ?l0] by simp_all
  have inv: "inverted ch ?l1 = inverted ch l"
    using unch(2) by (simp add: inverted_def saveTouchStart_def)
  have "mMatrix (dragMoves ch l evs) = mMatrix (?step e ?l1)"
    by (simp add: dragMoves_def evs)
  also have "\<dots> = postTranslate (translationX e)
                      (if inverted ch ?l1 then - translationY e else translationY e)
                      (mSavedMatrix ?l1)"
    by (rule performDrag_matrix)
  also have "\<dots> = postTranslate (translationX e)
                      (if inverted ch l then - translationY e else translationY e) (mMatrix l)"
    unfolding inv unch(1) by (simp add: saveTouchStart_def)
  finally show ?thesis by (simp add: evs)
qed

theorem dragMoves_last_translation_witness:
  "[exampleEvent, exampleEvent\<lparr>translationX := 30, translationY := - 20\<rparr>] \<noteq> [] \<and>
   mMatrix (dragMoves exampleChart exampleListener
             [exampleEvent, exampleEvent\<lparr>translationX := 30, translationY := - 20\<rparr>]) =
     identityMatrix\<lparr>MTRANS_X := 37, MTRANS_Y := 20\<rparr>"
  using dragMoves_last_translation
          [of "[exampleEvent, exampleEvent\<lparr>translationX := 30, translationY := - 20\<rparr>]"
              exampleChart exampleListener]
  by (simp add: exampleEvent_def exampleChart_def exampleListener_def inverted_def
        postTranslate_def identityMatrix_def)

text \<open>
  The pan handler hands each such matrix to \<open>refresh\<close> of the viewport handler and keeps
  what it returns: after a sequence of moves in \<open>DRAG\<close> mode the live matrix is the refreshed
  translation of the saved matrix by the last move.
\<close>

lemma onPanGestureTouch_drag:
  assumes "mTouchMode l = DRAG" "evState ev = ACTIVE"
          "isHighlightPerDragEnabled ch \<or> isDragEnabled ch"
  shows "mMatrix (fst (onPanGestureTouch ch l ev)) =
           refresh ch (postTranslate (translationX ev)
             (if inverted ch l then - translationY ev else translationY ev) (mSavedMatrix l))"
    and "mSavedMatrix (fst (onPanGestureTouch ch l ev)) = mSavedMatrix l"
    and "mClosestDataSetToTouch (fst (onPanGestureTouch ch l ev)) = mClosestDataSetToTouch l"
    and "mTouchMode (fst (onPanGestureTouch ch l ev)) = DRAG"
  using assms
  by (auto simp: onPanGestureTouch_def Let_def performDrag_matrix performDrag_unchanged)

lemma panTouches_drag_unchanged:
  assumes "mTouchMode l = DRAG" "\<forall>ev\<in>set evs. evState ev = ACTIVE"
          "isHighlightPerDragEnabled ch \<or> isDragEnabled ch"
  shows "mSavedMatrix (panTouches ch l evs) = mSavedMatrix l \<and>
         mClosestDataSetToTouch (panTouches ch l evs) = mClosestDataSetToTouch l \<and>
         mTouchMode (panTouches ch l evs) = DRAG"
  using assms
proof (induction evs arbitrary: l)
  case Nil
  then show ?case by (simp add: panTouches_def)
next
  case (Cons ev evs)
  have "panTouches ch l (ev # evs) = panTouches ch (fst (onPanGestureTouch ch l ev)) evs"
    by (simp add: panTouches_def)
  moreover have "mTouchMode (fst (onPanGestureTouch ch l ev)) = DRAG"
    using Cons.prems by (intro onPanGestureTouch_drag) auto
  ultimately show ?case
    using Cons.IH [of "fst (onPanGestureTouch ch l ev)"] Cons.prems
    by (simp add: onPanGestureTouch_drag)
qed

lemma panTouches_last_translation:
  assumes "evs \<noteq> []" "mTouchMode l = DRAG" "\<forall>ev\<in>set evs. evState ev = ACTIVE"
          "isHighlightPerDragEnabled ch \<or> isDragEnabled ch"
  shows "mMatrix (panTouches ch l evs) =
           refresh ch (postTranslate (translationX (last evs))
             (if inverted ch l then - translationY (last evs) else translationY (last evs))
             (mSavedMatrix l))"
proof -
  from assms(1) obtain es e where evs: "evs = es @ [e]"
    by (cases evs rule: rev_cases) auto
  let ?l1 = "panTouches ch l es"
  have u: "mSavedMatrix ?l1 = mSavedMatrix l" "mClosestDataSetToTouch ?l1 = mClosestDataSetToTouch l"
          "mTouchMode ?l1 = DRAG"
    using panTouches_drag_unchanged [of l es ch] assms by (simp_all add: evs)
  have "panTouches ch l evs = fst (onPanGestureTouch ch ?l1 e)"
    by (simp add: panTouches_def evs)
  moreover have "evState e = ACTIVE" using assms(3) by (simp add: evs)
  ultimately show ?thesis
    using onPanGestureTouch_drag(1) [of ?l1 e ch] u assms(4)
    by (simp add: evs inverted_def)
qed

section \<open>Pinching\<close>

text \<open>
  C4. On a pinch move in \<open>PINCH_ZOOM\<close> mode with a scale below 1, when neither axis can zoom
  out further, no scale is applied: the saved matrix is kept, the touch mode stays
  \<open>PINCH_ZOOM\<close>, and the live matrix is what \<open>refresh\<close> returns for the live matrix itself, so
  it is unchanged whenever \<open>refresh\<close> leaves that matrix as it is.
\<close>

theorem pinch_zoom_out_blocked:
  assumes "mTouchMode l = PINCH_ZOOM" "evScale ev < 1"
          "\<not> canZoomOutMoreX ch" "\<not> canZoomOutMoreY ch"
  shows "mTouchMode (fst (onPinchGestureTouch ch l ev)) = PINCH_ZOOM \<and>
         mSavedMatrix (fst (onPinchGestureTouch ch l ev)) = mSavedMatrix l \<and>
         mMatrix (fst (onPinchGestureTouch ch l ev)) =
           (if (isScaleXEnabled ch \<or> isScaleYEnabled ch) \<and> evState ev = ACTIVE
            then refresh ch (mMatrix l) else mMatrix l) \<and>
         (refresh ch (mMatrix l) = mMatrix l \<longrightarrow>
            mMatrix (fst (onPinchGestureTouch ch l ev)) = mMatrix l)"
  using assms by (simp add: onPinchGestureTouch_def Let_def)

theorem pinch_zoom_out_blocked_witness:
  "evScale exampleEvent < 1 \<and>
   mTouchMode (fst (onPinchGestureTouch exampleChart
                      (exampleListener\<lparr>mTouchMode := PINCH_ZOOM\<rparr>) exampleEvent)) = PINCH_ZOOM \<and>
   mMatrix (fst (onPinchGestureTouch exampleChart
                   (exampleListener\<lparr>mTouchMode := PINCH_ZOOM\<rparr>) exampleEvent)) =
     identityMatrix\<lparr>MTRANS_X := 7\<rparr>"
proof -
  have r: "refresh exampleChart (identityMatrix\<lparr>MTRANS_X := 7\<rparr>) = identityMatrix\<lparr>MTRANS_X := 7\<rparr>"
    by (simp add: exampleChart_def identityMatrix_def)
  show ?thesis
    using pinch_zoom_out_blocked
            [of "exampleListener\<lparr>mTouchMode := PINCH_ZOOM\<rparr>" exampleEvent exampleChart] r
    by (simp add: exampleListener_def exampleEvent_def exampleChart_def)
qed

text \<open>When an axis can zoom further, the scale is applied to the saved matrix about the translated centre.\<close>

lemma pinch_zoom_applied:
  assumes "mTouchMode l = PINCH_ZOOM" "evState ev = ACTIVE"
          "isScaleXEnabled ch \<or> isScaleYEnabled ch"
          "if evScale ev < 1 then canZoomOutMoreX ch \<or> canZoomOutMoreY ch
           else canZoomInMoreX ch \<or> canZoomInMoreY ch"
  shows "mMatrix (fst (onPinchGestureTouch ch l ev)) =
           refresh ch
             (postScale (if isScaleXEnabled ch then evScale ev else 1)
                        (if isScaleYEnabled ch then evScale ev else 1)
                        (fst (getTrans ch l (fst (mTouchPointCenter l)) (snd (mTouchPointCenter l))))
                        (snd (getTrans ch l (fst (mTouchPointCenter l)) (snd (mTouchPointCenter l))))
                        (mSavedMatrix l))"
  using assms
  by (auto simp: onPinchGestureTouch_def Let_def getTrans_def inverted_def split: if_splits)

text \<open>
  C5. When a pinch begins and scaling is enabled on at least one axis, the touch mode
  becomes \<open>PINCH_ZOOM\<close> if pinch zoom is enabled; otherwise \<open>X_ZOOM\<close> or \<open>Y_ZOOM\<close> if only that
  axis can be scaled; otherwise \<open>X_ZOOM\<close> if the distance between the fingers on the x-axis
  exceeds the one on the y-axis, and \<open>Y_ZOOM\<close> if it does not.
\<close>

theorem pinch_begin_mode:
  assumes "evState ev = ACTIVE" "isScaleXEnabled ch \<or> isScaleYEnabled ch"
  shows "(isPinchZoomEnabled ch \<longrightarrow>
            mTouchMode (fst (onPinchGestureState ch l ev)) = PINCH_ZOOM) \<and>
         (\<not> isPinchZoomEnabled ch \<and> isScaleXEnabled ch \<and> \<not> isScaleYEnabled ch \<longrightarrow>
            mTouchMode (fst (onPinchGestureState ch l ev)) = X_ZOOM) \<and>
         (\<not> isPinchZoomEnabled ch \<and> \<not> isScaleXEnabled ch \<and> isScaleYEnabled ch \<longrightarrow>
            mTouchMode (fst (onPinchGestureState ch l ev)) = Y_ZOOM) \<and>
         (\<not> isPinchZoomEnabled ch \<and> isScaleXEnabled ch \<and> isScaleYEnabled ch \<longrightarrow>
            mTouchMode (fst (onPinchGestureState ch l ev)) =
              (if greaterThan (getXDist ev) (getYDist ev) then X_ZOOM else Y_ZOOM)) \<and>
         (\<forall>x0 y0 x1 y1. positions ev = [x0, y0, x1, y1] \<longrightarrow>
            greaterThan (getXDist ev) (getYDist ev) = (\<bar>x0 - x1\<bar> > \<bar>y0 - y1\<bar>))"
  using assms
  by (auto simp: onPinchGestureState_def Let_def saveTouchStart_def getXDist_def getYDist_def
        position_def absDifference_def greaterThan_def)

theorem pinch_begin_mode_witness:
  "mTouchMode (fst (onPinchGestureState (exampleChart\<lparr>isScaleYEnabled := True\<rparr>)
                      exampleListener exampleEvent)) = X_ZOOM \<and>
   mTouchMode (fst (onPinchGestureState (exampleChart\<lparr>isScaleYEnabled := True\<rparr>)
                      exampleListener (exampleEvent\<lparr>positions := [10, 20, 30, 90]\<rparr>))) = Y_ZOOM \<and>
   mTouchMode (fst (onPinchGestureState exampleChart exampleListener exampleEvent)) = X_ZOOM \<and>
   mTouchMode (fst (onPinchGestureState (exampleChart\<lparr>isPinchZoomEnabled := True\<rparr>)
                      exampleListener exampleEvent)) = PINCH_ZOOM"
  using pinch_begin_mode [of exampleEvent "exampleChart\<lparr>isScaleYEnabled := True\<rparr>" exampleListener]
        pinch_begin_mode [of "exampleEvent\<lparr>positions := [10, 20, 30, 90]\<rparr>"
                             "exampleChart\<lparr>isScaleYEnabled := True\<rparr>" exampleListener]
        pinch_begin_mode [of exampleEvent exampleChart exampleListener]
        pinch_begin_mode [of exampleEvent "exampleChart\<lparr>isPinchZoomEnabled := True\<rparr>" exampleListener]
  by (simp add: exampleEvent_def exampleChart_def)

section \<open>Double tap\<close>

text \<open>
  C6. At the end of a double tap, when double-tap zooming is enabled and the chart data
  hold at least one entry, \<open>chart.zoom\<close> is called once, with the factor 1.4 on each axis
  whose scaling is enabled and 1 on the other, about the tap point as \<open>getTrans\<close> translates
  it; when the feature is disabled or the data hold no entry, it is not called.
\<close>

theorem double_tap_zoom:
  assumes "evState ev = END" "evPrevState ev = ACTIVE"
  shows "(isDoubleTapToZoomEnabled ch \<and>
            (\<exists>sc. chartData ch = Some sc \<and> getEntryCount (fst sc) (snd sc) > 0) \<longrightarrow>
          filter isZoom (fst (onDoubleTapGesture ch l ev)) =
            [Zoom (if isScaleXEnabled ch then 1.4 else 1) (if isScaleYEnabled ch then 1.4 else 1)
                  (fst (getTrans ch l (evX ev) (evY ev))) (snd (getTrans ch l (evX ev) (evY ev)))] \<and>
          snd (onDoubleTapGesture ch l ev) = None) \<and>
         (\<not> isDoubleTapToZoomEnabled ch \<or>
            (\<forall>sc. chartData ch = Some sc \<longrightarrow> getEntryCount (fst sc) (snd sc) = 0) \<longrightarrow>
          filter isZoom (fst (onDoubleTapGesture ch l ev)) = [])"
  using assms
  by (auto simp: onDoubleTapGesture_def Let_def split: option.splits)

lemma exampleChart_entryCount:
  "getEntryCount exampleStore (newChartData exampleStore [0, 1]) = 4"
  by (simp add: getEntryCount_def newChartData_def notifyDataChanged_def calcMinMax_fields(1)
        DataSet_getEntryCount_def exampleStore_def)

theorem double_tap_zoom_witness:
  "filter isZoom
     (fst (onDoubleTapGesture exampleChart exampleListener
             (exampleEvent\<lparr>evState := END, evPrevState := ACTIVE\<rparr>))) =
     [Zoom 1.4 1 40 (- 45)] \<and>
   filter isZoom
     (fst (onDoubleTapGesture (exampleChart\<lparr>isDoubleTapToZoomEnabled := False\<rparr>) exampleListener
             (exampleEvent\<lparr>evState := END, evPrevState := ACTIVE\<rparr>))) = []"
  using double_tap_zoom [of "exampleEvent\<lparr>evState := END, evPrevState := ACTIVE\<rparr>"
                            exampleChart exampleListener]
        double_tap_zoom [of "exampleEvent\<lparr>evState := END, evPrevState := ACTIVE\<rparr>"
                            "exampleChart\<lparr>isDoubleTapToZoomEnabled := False\<rparr>" exampleListener]
        exampleChart_entryCount
  by (simp add: exampleEvent_def exampleChart_def exampleListener_def getTrans_def inverted_def)

lemma double_tap_other_states:
  "\<not> (evState ev = END \<and> evPrevState ev = ACTIVE) \<Longrightarrow> onDoubleTapGesture ch l ev = ([], None)"
  by (auto simp: onDoubleTapGesture_def)

end
